theory Spec2Isabelle
  imports Main
begin

section \<open>The deployment script as a function of the world it runs against\<close>

text \<open>
  The deployment orchestrator is the bash script \<^verbatim>\<open>deploy.sh\<close>. It runs under
  \<^verbatim>\<open>set -e\<close> and talks to the outside only through external commands
  (\<^verbatim>\<open>aws\<close>, \<^verbatim>\<open>docker\<close>, \<^verbatim>\<open>curl\<close>, \<^verbatim>\<open>sleep\<close>, \<^verbatim>\<open>cd\<close>).
  The embedding makes that explicit: an external command is a value of type \<open>cmd\<close>,
  the outside is any state machine \<open>step\<close> that answers a command with an exit status,
  a standard output and a standard error, and the shell is a record of the script's global
  variables together with the world, the log of every command issued (with its exit status)
  and what reached the terminal.

  Unquoted expansions are passed as single arguments: word splitting and globbing of
  variable values are not modelled.
\<close>

subsection \<open>External commands\<close>

type_synonym params = "(string \<times> string) list"

text \<open>
  One constructor per command line of the script. The constant arguments
  (\<^verbatim>\<open>--template-body file://infrastructure/cloudformation/main.yaml\<close>,
  \<^verbatim>\<open>--capabilities CAPABILITY_IAM\<close>, \<^verbatim>\<open>--force-new-deployment\<close>,
  \<^verbatim>\<open>--output text\<close>, \<^verbatim>\<open>--username AWS --password-stdin\<close>, \<^verbatim>\<open>-s -f\<close>)
  are part of the constructor's meaning. A \<open>describe-stacks\<close> call carries the output key
  its \<^verbatim>\<open>--query\<close> selects, \<open>None\<close> when it has no query.
\<close>

datatype cmd =
    StsGetCallerIdentity
  | EcrDescribeRepositories string string
  | EcrCreateRepository string string
  | EcrGetLoginPassword string
  | DockerLogin string string
  | Cd string
  | DockerBuild string
  | DockerTag string string
  | DockerPush string
  | CfnDescribeStacks string string "string option"
  | CfnUpdateStack string params string
  | CfnCreateStack string params string
  | CfnWait string string string
  | EcsUpdateService string string string
  | Sleep nat
  | Curl string

record response =
  rc :: nat
  out :: string
  err :: string

type_synonym 'w plane = "'w \<Rightarrow> cmd \<Rightarrow> response \<times> 'w"

subsection \<open>The shell\<close>

datatype line = Info string | Warning string | Error string | Echo string | Ext string

text \<open>The script's global variables.\<close>

record vars =
  ENVIRONMENT :: string
  AWS_REGION :: string
  DATABASE_PASSWORD :: string
  AWS_ACCOUNT_ID :: string
  CLUSTER_NAME :: string
  BACKEND_SERVICE :: string
  FRONTEND_SERVICE :: string
  ALB_DNS :: string

text \<open>
  The shell: its variables, the commands found on the \<^verbatim>\<open>PATH\<close>, the world, the log
  of the commands issued with their exit statuses, and the lines written to the terminal.
\<close>

record 'w sh =
  vars :: vars
  installed :: "string list"
  world :: 'w
  trace :: "(cmd \<times> nat) list"
  console :: "line list"

datatype 'w result = Exit nat "'w sh" | Next "'w sh"

fun final :: "'w result \<Rightarrow> 'w sh" where
  "final (Exit n s) = s"
| "final (Next s) = s"

fun exit_code :: "'w result \<Rightarrow> nat" where
  "exit_code (Exit n s) = n"
| "exit_code (Next s) = 0"

fun succeeded :: "'w result \<Rightarrow> bool" where
  "succeeded (Exit n s) = False"
| "succeeded (Next s) = True"

text \<open>A list of commands run one after the other; an exit ends the script.\<close>

fun seq :: "('w sh \<Rightarrow> 'w result) list \<Rightarrow> 'w sh \<Rightarrow> 'w result" where
  "seq [] s = Next s"
| "seq (f # fs) s = (case f s of Exit n s' \<Rightarrow> Exit n s' | Next s' \<Rightarrow> seq fs s')"

definition if_then :: "('w sh \<Rightarrow> bool) \<Rightarrow> ('w sh \<Rightarrow> 'w result) list \<Rightarrow> 'w sh \<Rightarrow> 'w result" where
  "if_then b body s = (if b s then seq body s else Next s)"

definition exit_with :: "nat \<Rightarrow> 'w sh \<Rightarrow> 'w result" where
  "exit_with n s = Exit n s"

definition emit :: "line \<Rightarrow> 'w sh \<Rightarrow> 'w sh" where
  "emit l s = s\<lparr>console := console s @ [l]\<rparr>"

definition print_status :: "string \<Rightarrow> 'w sh \<Rightarrow> 'w result" where
  "print_status m s = Next (emit (Info m) s)"

definition print_warning :: "string \<Rightarrow> 'w sh \<Rightarrow> 'w result" where
  "print_warning m s = Next (emit (Warning m) s)"

definition print_error :: "string \<Rightarrow> 'w sh \<Rightarrow> 'w result" where
  "print_error m s = Next (emit (Error m) s)"

definition echo :: "string \<Rightarrow> 'w sh \<Rightarrow> 'w result" where
  "echo m s = Next (emit (Echo m) s)"

text \<open>
  Issuing a command: the world answers and moves on, the command is logged with its exit
  status, and the part of its output that is neither captured nor redirected reaches the
  terminal (an \<open>Ext\<close> line, empty when nothing is shown).
\<close>

definition answer :: "'w plane \<Rightarrow> cmd \<Rightarrow> 'w sh \<Rightarrow> response" where
  "answer step c s = fst (step (world s) c)"

definition status :: "'w plane \<Rightarrow> cmd \<Rightarrow> 'w sh \<Rightarrow> nat" where
  "status step c s = rc (answer step c s)"

definition attempt :: "'w plane \<Rightarrow> cmd \<Rightarrow> (response \<Rightarrow> string) \<Rightarrow> 'w sh \<Rightarrow> 'w sh" where
  "attempt step c shown s =
     s\<lparr>world := snd (step (world s) c),
       trace := trace s @ [(c, status step c s)],
       console := console s @ [Ext (shown (answer step c s))]\<rparr>"

definition both :: "response \<Rightarrow> string" where
  "both r = out r @ err r"

definition silent :: "response \<Rightarrow> string" where
  "silent r = []"

text \<open>
  A simple command under \<^verbatim>\<open>set -e\<close>: its output goes to the terminal, a non-zero status
  ends the script with that status.
\<close>

definition run :: "'w plane \<Rightarrow> cmd \<Rightarrow> 'w sh \<Rightarrow> 'w result" where
  "run step c s =
     (if status step c s = 0 then Next (attempt step c both s)
      else Exit (status step c s) (attempt step c both s))"

text \<open>\<^verbatim>\<open>a || b\<close> under \<^verbatim>\<open>set -e\<close>: the status of \<open>a\<close> is only tested.\<close>

definition or_else :: "'w plane \<Rightarrow> cmd \<Rightarrow> cmd \<Rightarrow> 'w sh \<Rightarrow> 'w result" where
  "or_else step a b s =
     (if status step a s = 0 then Next (attempt step a both s)
      else run step b (attempt step a both s))"

text \<open>Command substitution strips the trailing newlines.\<close>

definition chomp :: "string \<Rightarrow> string" where
  "chomp t = rev (dropWhile (\<lambda>c. c = CHR 0x0A) (rev t))"

text \<open>
  \<^verbatim>\<open>VAR=$(cmd)\<close> under \<^verbatim>\<open>set -e\<close>: standard output is captured, standard error goes to
  the terminal, and the status of the assignment is the status of the command.
\<close>

definition capture ::
  "'w plane \<Rightarrow> cmd \<Rightarrow> (string \<Rightarrow> vars \<Rightarrow> vars) \<Rightarrow> 'w sh \<Rightarrow> 'w result" where
  "capture step c assign s =
     (if status step c s = 0
      then Next ((attempt step c err s)\<lparr>vars := assign (chomp (out (answer step c s))) (vars s)\<rparr>)
      else Exit (status step c s)
             ((attempt step c err s)\<lparr>vars := assign (chomp (out (answer step c s))) (vars s)\<rparr>))"

subsection \<open>Text tests\<close>

fun starts_with :: "string \<Rightarrow> string \<Rightarrow> bool" where
  "starts_with t [] = True"
| "starts_with [] (p # ps) = False"
| "starts_with (c # cs) (p # ps) = (c = p \<and> starts_with cs ps)"

text \<open>\<^verbatim>\<open>[[ $t == *"pat"* ]]\<close>\<close>

fun contains :: "string \<Rightarrow> string \<Rightarrow> bool" where
  "contains [] pat = (pat = [])"
| "contains (c # cs) pat = (starts_with (c # cs) pat \<or> contains cs pat)"

definition digit :: "nat \<Rightarrow> char" where
  "digit d = ''0123456789'' ! d"

fun decimal :: "nat \<Rightarrow> string" where
  "decimal n = (if n < 10 then [digit n] else decimal (n div 10) @ [digit (n mod 10)])"

subsection \<open>Configuration\<close>

definition STACK_NAME :: string where
  "STACK_NAME = ''blog-app-stack''"

definition registry :: "vars \<Rightarrow> string" where
  "registry e = AWS_ACCOUNT_ID e @ ''.dkr.ecr.'' @ AWS_REGION e @ ''.amazonaws.com''"

definition BACKEND_REPOSITORY_URI :: "vars \<Rightarrow> string" where
  "BACKEND_REPOSITORY_URI e = registry e @ ''/blog-backend''"

definition FRONTEND_REPOSITORY_URI :: "vars \<Rightarrow> string" where
  "FRONTEND_REPOSITORY_URI e = registry e @ ''/blog-frontend''"

definition stack_parameters :: "vars \<Rightarrow> params" where
  "stack_parameters e =
     [(''Environment'', ENVIRONMENT e),
      (''DatabasePassword'', DATABASE_PASSWORD e),
      (''BackendRepositoryUri'', BACKEND_REPOSITORY_URI e),
      (''FrontendRepositoryUri'', FRONTEND_REPOSITORY_URI e)]"

text \<open>\<^verbatim>\<open>${VAR:-default}\<close>: the default replaces an unset or empty value.\<close>

definition default_to :: "string \<Rightarrow> string \<Rightarrow> string" where
  "default_to d v = (if v = [] then d else v)"

text \<open>
  The shell at the start of the script, from the process environment (an unset variable
  reads as the empty string: the script never runs under \<^verbatim>\<open>set -u\<close>), the commands
  found on the \<^verbatim>\<open>PATH\<close> and the world. \<^verbatim>\<open>ECR_REPOSITORY_PREFIX\<close> is set by the
  script and never read, so it has no field.
\<close>

definition startup :: "(string \<Rightarrow> string) \<Rightarrow> string list \<Rightarrow> 'w \<Rightarrow> 'w sh" where
  "startup environ tools w =
     \<lparr>vars =
        \<lparr>ENVIRONMENT = default_to ''production'' (environ ''ENVIRONMENT''),
         AWS_REGION = default_to ''us-east-1'' (environ ''AWS_REGION''),
         DATABASE_PASSWORD = default_to [] (environ ''DATABASE_PASSWORD''),
         AWS_ACCOUNT_ID = environ ''AWS_ACCOUNT_ID'',
         CLUSTER_NAME = environ ''CLUSTER_NAME'',
         BACKEND_SERVICE = environ ''BACKEND_SERVICE'',
         FRONTEND_SERVICE = environ ''FRONTEND_SERVICE'',
         ALB_DNS = environ ''ALB_DNS''\<rparr>,
      installed = tools,
      world = w,
      trace = [],
      console = []\<rparr>"

subsection \<open>check_prerequisites\<close>

definition check_prerequisites :: "'w plane \<Rightarrow> 'w sh \<Rightarrow> 'w result" where
  "check_prerequisites step = seq
     [print_status ''Checking prerequisites...'',
      if_then (\<lambda>s. \<not> List.member (installed s) ''aws'')
        [print_error ''AWS CLI is not installed. Please install it first.'',
         exit_with 1],
      if_then (\<lambda>s. \<not> List.member (installed s) ''docker'')
        [print_error ''Docker is not installed. Please install it first.'',
         exit_with 1],
      if_then (\<lambda>s. DATABASE_PASSWORD (vars s) = [])
        [print_error ''DATABASE_PASSWORD environment variable is not set.'',
         exit_with 1],
      if_then (\<lambda>s. AWS_ACCOUNT_ID (vars s) = [])
        [print_status ''AWS_ACCOUNT_ID not set. Attempting to retrieve from AWS CLI...'',
         capture step StsGetCallerIdentity (\<lambda>v e. e\<lparr>AWS_ACCOUNT_ID := v\<rparr>),
         if_then (\<lambda>s. AWS_ACCOUNT_ID (vars s) = [])
           [print_error ''Could not retrieve AWS account ID. Please set AWS_ACCOUNT_ID environment variable.'',
            exit_with 1],
         (\<lambda>s. print_status (''AWS account ID: '' @ AWS_ACCOUNT_ID (vars s)) s)],
      print_status ''Prerequisites check passed.'']"

subsection \<open>build_and_push_images\<close>

text \<open>
  \<^verbatim>\<open>aws ecr get-login-password | docker login --password-stdin\<close>: without
  \<^verbatim>\<open>pipefail\<close> the status of the pipeline is the status of \<^verbatim>\<open>docker login\<close>, which
  reads the standard output of \<^verbatim>\<open>aws\<close>.
\<close>

definition ecr_login :: "'w plane \<Rightarrow> 'w sh \<Rightarrow> 'w result" where
  "ecr_login step s =
     run step
       (DockerLogin (registry (vars s))
          (out (answer step (EcrGetLoginPassword (AWS_REGION (vars s))) s)))
       (attempt step (EcrGetLoginPassword (AWS_REGION (vars s))) err s)"

definition build_and_push_images :: "'w plane \<Rightarrow> 'w sh \<Rightarrow> 'w result" where
  "build_and_push_images step = seq
     [print_status ''Building and pushing Docker images...'',
      print_status ''Creating ECR repositories if they don't exist...'',
      (\<lambda>s. or_else step (EcrDescribeRepositories ''blog-backend'' (AWS_REGION (vars s)))
                         (EcrCreateRepository ''blog-backend'' (AWS_REGION (vars s))) s),
      (\<lambda>s. or_else step (EcrDescribeRepositories ''blog-frontend'' (AWS_REGION (vars s)))
                         (EcrCreateRepository ''blog-frontend'' (AWS_REGION (vars s))) s),
      print_status ''Logging in to ECR...'',
      ecr_login step,
      print_status ''Building backend image...'',
      run step (Cd ''backend''),
      run step (DockerBuild ''backend:latest''),
      run step (Cd ''..''),
      print_status ''Building frontend image...'',
      run step (Cd ''frontend''),
      run step (DockerBuild ''frontend:latest''),
      run step (Cd ''..''),
      print_status ''Tagging and pushing backend image...'',
      (\<lambda>s. run step (DockerTag ''backend:latest'' (registry (vars s) @ ''/blog-backend:latest'')) s),
      (\<lambda>s. run step (DockerPush (registry (vars s) @ ''/blog-backend:latest'')) s),
      print_status ''Tagging and pushing frontend image...'',
      (\<lambda>s. run step (DockerTag ''frontend:latest'' (registry (vars s) @ ''/blog-frontend:latest'')) s),
      (\<lambda>s. run step (DockerPush (registry (vars s) @ ''/blog-frontend:latest'')) s),
      print_status ''Docker images built and pushed successfully.'']"

subsection \<open>deploy_infrastructure\<close>

text \<open>
  \<^verbatim>\<open>CLOUDFORMATION_ERROR=$(aws cloudformation update-stack ... 2>&1 || echo $?)\<close>:
  both streams of \<^verbatim>\<open>aws\<close>, followed by its exit status when that is not zero.
\<close>

definition CLOUDFORMATION_ERROR :: "response \<Rightarrow> string" where
  "CLOUDFORMATION_ERROR r =
     chomp (out r @ err r @ (if rc r \<noteq> 0 then decimal (rc r) @ [CHR 0x0A] else []))"

definition update_stack_request :: "'w sh \<Rightarrow> cmd" where
  "update_stack_request s =
     CfnUpdateStack STACK_NAME (stack_parameters (vars s)) (AWS_REGION (vars s))"

definition update_stack :: "'w plane \<Rightarrow> 'w sh \<Rightarrow> 'w result" where
  "update_stack step s =
     (if contains (CLOUDFORMATION_ERROR (answer step (update_stack_request s) s))
           ''No updates are to be performed''
      then print_status ''No updates are to be performed on the stack.''
             (attempt step (update_stack_request s) silent s)
      else if contains (CLOUDFORMATION_ERROR (answer step (update_stack_request s) s)) ''error''
      then seq [print_error (''Failed to update CloudFormation stack: ''
                  @ CLOUDFORMATION_ERROR (answer step (update_stack_request s) s)),
                exit_with 1]
             (attempt step (update_stack_request s) silent s)
      else seq [print_status ''Waiting for stack update to complete...'',
                run step (CfnWait ''stack-update-complete'' STACK_NAME (AWS_REGION (vars s)))]
             (attempt step (update_stack_request s) silent s))"

definition create_stack :: "'w plane \<Rightarrow> 'w sh \<Rightarrow> 'w result" where
  "create_stack step s = seq
     [run step (CfnCreateStack STACK_NAME (stack_parameters (vars s)) (AWS_REGION (vars s))),
      print_status ''Waiting for stack creation to complete...'',
      run step (CfnWait ''stack-create-complete'' STACK_NAME (AWS_REGION (vars s)))] s"

text \<open>
  \<^verbatim>\<open>if aws cloudformation describe-stacks ... &> /dev/null\<close>: only the exit status is
  used, the description of the stack is discarded.
\<close>

definition stack_exists :: "'w plane \<Rightarrow> 'w sh \<Rightarrow> 'w result" where
  "stack_exists step s =
     (if status step (CfnDescribeStacks STACK_NAME (AWS_REGION (vars s)) None) s = 0
      then seq [print_status ''Stack exists. Updating...'', update_stack step]
             (attempt step (CfnDescribeStacks STACK_NAME (AWS_REGION (vars s)) None) silent s)
      else seq [print_status ''Stack does not exist. Creating...'', create_stack step]
             (attempt step (CfnDescribeStacks STACK_NAME (AWS_REGION (vars s)) None) silent s))"

definition deploy_infrastructure :: "'w plane \<Rightarrow> 'w sh \<Rightarrow> 'w result" where
  "deploy_infrastructure step = seq
     [print_status ''Deploying infrastructure using CloudFormation...'',
      stack_exists step,
      print_status ''Infrastructure deployment completed.'']"

subsection \<open>deploy_application\<close>

definition stack_output ::
  "'w plane \<Rightarrow> string \<Rightarrow> (string \<Rightarrow> vars \<Rightarrow> vars) \<Rightarrow> 'w sh \<Rightarrow> 'w result" where
  "stack_output step key assign s =
     capture step (CfnDescribeStacks STACK_NAME (AWS_REGION (vars s)) (Some key)) assign s"

definition deploy_application :: "'w plane \<Rightarrow> 'w sh \<Rightarrow> 'w result" where
  "deploy_application step = seq
     [print_status ''Deploying application...'',
      stack_output step ''ECSClusterName'' (\<lambda>v e. e\<lparr>CLUSTER_NAME := v\<rparr>),
      stack_output step ''BackendServiceName'' (\<lambda>v e. e\<lparr>BACKEND_SERVICE := v\<rparr>),
      stack_output step ''FrontendServiceName'' (\<lambda>v e. e\<lparr>FRONTEND_SERVICE := v\<rparr>),
      (\<lambda>s. run step (EcsUpdateService (CLUSTER_NAME (vars s)) (BACKEND_SERVICE (vars s)) (AWS_REGION (vars s))) s),
      (\<lambda>s. run step (EcsUpdateService (CLUSTER_NAME (vars s)) (FRONTEND_SERVICE (vars s)) (AWS_REGION (vars s))) s),
      print_status ''Application deployment completed.'']"

subsection \<open>get_deployment_info\<close>

definition get_deployment_info :: "'w plane \<Rightarrow> 'w sh \<Rightarrow> 'w result" where
  "get_deployment_info step = seq
     [print_status ''Getting deployment information...'',
      stack_output step ''ALBDNSName'' (\<lambda>v e. e\<lparr>ALB_DNS := v\<rparr>),
      echo [],
      echo ''=========================================='',
      echo ''DEPLOYMENT COMPLETED SUCCESSFULLY'',
      echo ''=========================================='',
      (\<lambda>s. echo (''Application URL: http://'' @ ALB_DNS (vars s)) s),
      (\<lambda>s. echo (''API Documentation: http://'' @ ALB_DNS (vars s) @ ''/docs'') s),
      (\<lambda>s. echo (''Environment: '' @ ENVIRONMENT (vars s)) s),
      (\<lambda>s. echo (''Region: '' @ AWS_REGION (vars s)) s),
      echo ''=========================================='',
      echo []]"

subsection \<open>run_health_checks\<close>

text \<open>
  \<^verbatim>\<open>if curl -s -f URL > /dev/null; then ... else ... fi\<close>: the status of \<^verbatim>\<open>curl\<close> is
  only tested, its standard output is discarded.
\<close>

definition health_check :: "'w plane \<Rightarrow> string \<Rightarrow> string \<Rightarrow> string \<Rightarrow> 'w sh \<Rightarrow> 'w result" where
  "health_check step path passed failed s =
     (if status step (Curl (''http://'' @ ALB_DNS (vars s) @ path)) s = 0
      then print_status passed
             (attempt step (Curl (''http://'' @ ALB_DNS (vars s) @ path)) err s)
      else print_warning failed
             (attempt step (Curl (''http://'' @ ALB_DNS (vars s) @ path)) err s))"

definition run_health_checks :: "'w plane \<Rightarrow> 'w sh \<Rightarrow> 'w result" where
  "run_health_checks step = seq
     [print_status ''Running health checks...'',
      stack_output step ''ALBDNSName'' (\<lambda>v e. e\<lparr>ALB_DNS := v\<rparr>),
      print_status ''Waiting for services to be ready (2 minutes)...'',
      run step (Sleep 120),
      print_status ''Checking frontend health...'',
      health_check step ''/health'' ''Frontend health check passed.''
        ''Frontend health check failed. The application might still be starting up.'',
      print_status ''Checking backend health...'',
      health_check step ''/api/health'' ''Backend health check passed.''
        ''Backend health check failed. The API might still be starting up.'']"

subsection \<open>main and the dispatch on the subcommand\<close>

definition main :: "'w plane \<Rightarrow> 'w sh \<Rightarrow> 'w result" where
  "main step = seq
     [print_status ''Starting deployment process...'',
      check_prerequisites step,
      build_and_push_images step,
      deploy_infrastructure step,
      deploy_application step,
      run_health_checks step,
      get_deployment_info step,
      print_status ''Deployment completed successfully!'']"

definition usage :: "string \<Rightarrow> 'w sh \<Rightarrow> 'w result" where
  "usage argv0 = seq
     [echo (''Usage: '' @ argv0 @ '' {deploy|build|infrastructure|application|health|info}''),
      echo [],
      echo ''Commands:'',
      echo ''  deploy         - Full deployment (default)'',
      echo ''  build          - Build and push Docker images only'',
      echo ''  infrastructure - Deploy infrastructure only'',
      echo ''  application    - Deploy application only'',
      echo ''  health         - Run health checks'',
      echo ''  info           - Show deployment information'',
      exit_with 1]"

text \<open>\<^verbatim>\<open>${1:-deploy}\<close>\<close>

fun subcommand :: "string list \<Rightarrow> string" where
  "subcommand [] = ''deploy''"
| "subcommand (a # as) = default_to ''deploy'' a"

definition script :: "'w plane \<Rightarrow> string \<Rightarrow> string list \<Rightarrow> 'w sh \<Rightarrow> 'w result" where
  "script step argv0 args =
     (let a = subcommand args
      in if a = ''deploy'' then main step
         else if a = ''build'' then seq [check_prerequisites step, build_and_push_images step]
         else if a = ''infrastructure'' then seq [check_prerequisites step, deploy_infrastructure step]
         else if a = ''application'' then seq [check_prerequisites step, deploy_application step]
         else if a = ''health'' then seq [check_prerequisites step, run_health_checks step]
         else if a = ''info'' then seq [check_prerequisites step, get_deployment_info step]
         else usage argv0)"

section \<open>A control-plane double\<close>

text \<open>
  The theorems below hold for every world. To run the script on concrete inputs, this is
  one world: a control plane holding one stack, the parameter set last applied to it, the
  registry's repositories, the services whose replacement it rejects and the health
  addresses that fail. The stack states are those of the data model.
\<close>

datatype stack_state =
    Absent | Creating | Updating | CreateComplete | UpdateComplete
  | CreateFailed | UpdateFailed | NoUpdateNeeded

fun is_complete :: "stack_state \<Rightarrow> bool" where
  "is_complete CreateComplete = True"
| "is_complete UpdateComplete = True"
| "is_complete st = False"

record cloud =
  stack :: stack_state
  applied :: params
  repositories :: "string list"
  rejected :: "string list"
  unhealthy :: "string list"

definition ok :: "string \<Rightarrow> response" where
  "ok t = \<lparr>rc = 0, out = t, err = []\<rparr>"

definition failed :: "nat \<Rightarrow> string \<Rightarrow> response" where
  "failed n t = \<lparr>rc = n, out = [], err = t @ [CHR 0x0A]\<rparr>"

definition output_value :: "string \<Rightarrow> string" where
  "output_value k =
     (if k = ''ECSClusterName'' then ''production-cluster''
      else if k = ''BackendServiceName'' then ''production-backend-svc''
      else if k = ''FrontendServiceName'' then ''production-frontend-svc''
      else if k = ''ALBDNSName'' then ''alb.example.com''
      else []) @ [CHR 0x0A]"

fun cloud_step :: "cloud plane" where
  "cloud_step w StsGetCallerIdentity = (ok ''123456789012'', w)"
| "cloud_step w (EcrDescribeRepositories n r) =
     (if List.member (repositories w) n then ok ''{repositories}''
      else failed 254 ''An error occurred (RepositoryNotFoundException) when calling the DescribeRepositories operation'', w)"
| "cloud_step w (EcrCreateRepository n r) =
     (if List.member (repositories w) n
      then (failed 254 ''An error occurred (RepositoryAlreadyExistsException) when calling the CreateRepository operation'', w)
      else (ok ''{repository}'', w\<lparr>repositories := n # repositories w\<rparr>))"
| "cloud_step w (EcrGetLoginPassword r) = (ok ''token'', w)"
| "cloud_step w (DockerLogin reg pw) = (ok ''Login Succeeded'', w)"
| "cloud_step w (Cd d) = (ok [], w)"
| "cloud_step w (DockerBuild t) = (ok [], w)"
| "cloud_step w (DockerTag a b) = (ok [], w)"
| "cloud_step w (DockerPush t) = (ok [], w)"
| "cloud_step w (CfnDescribeStacks n r q) =
     (if stack w = Absent
      then failed 254 ''An error occurred (ValidationError) when calling the DescribeStacks operation: Stack with id blog-app-stack does not exist''
      else (case q of None \<Rightarrow> ok ''{Stacks}'' | Some k \<Rightarrow> ok (output_value k)), w)"
| "cloud_step w (CfnUpdateStack n ps r) =
     (if stack w = Absent
      then (failed 254 ''An error occurred (ValidationError) when calling the UpdateStack operation: Stack [blog-app-stack] does not exist'', w)
      else if \<not> is_complete (stack w)
      then (failed 254 ''An error occurred (ValidationError) when calling the UpdateStack operation: Stack blog-app-stack is in a state that can not be updated'', w)
      else if ps = applied w
      then (failed 254 ''An error occurred (ValidationError) when calling the UpdateStack operation: No updates are to be performed.'', w)
      else (ok ''{StackId}'', w\<lparr>stack := Updating, applied := ps\<rparr>))"
| "cloud_step w (CfnCreateStack n ps r) =
     (if stack w = Absent then (ok ''{StackId}'', w\<lparr>stack := Creating, applied := ps\<rparr>)
      else (failed 254 ''An error occurred (AlreadyExistsException) when calling the CreateStack operation: Stack [blog-app-stack] already exists'', w))"
| "cloud_step w (CfnWait k n r) =
     (if k = ''stack-create-complete'' \<and> (stack w = Creating \<or> stack w = CreateComplete)
      then (ok [], w\<lparr>stack := CreateComplete\<rparr>)
      else if k = ''stack-update-complete'' \<and> (stack w = Updating \<or> stack w = UpdateComplete)
      then (ok [], w\<lparr>stack := UpdateComplete\<rparr>)
      else (failed 255 ''Waiter encountered a terminal failure state'', w))"
| "cloud_step w (EcsUpdateService c sv r) =
     (if List.member (rejected w) sv
      then failed 254 ''An error occurred (ServiceNotFoundException) when calling the UpdateService operation: Service not found.''
      else ok ''{service}'', w)"
| "cloud_step w (Sleep n) = (ok [], w)"
| "cloud_step w (Curl u) =
     (if List.member (unhealthy w) u then \<lparr>rc = 22, out = [], err = []\<rparr> else ok ''OK'', w)"

text \<open>
  A shell whose prerequisites hold: both tools installed, the database password and the
  account identity set, defaults for the rest.
\<close>

definition ready :: "'w \<Rightarrow> 'w sh" where
  "ready w =
     \<lparr>vars =
        \<lparr>ENVIRONMENT = ''production'', AWS_REGION = ''us-east-1'',
         DATABASE_PASSWORD = ''blogpassword'', AWS_ACCOUNT_ID = ''587210148146'',
         CLUSTER_NAME = [], BACKEND_SERVICE = [], FRONTEND_SERVICE = [], ALB_DNS = []\<rparr>,
      installed = [''aws'', ''docker''], world = w, trace = [], console = []\<rparr>"

definition fresh_cloud :: cloud where
  "fresh_cloud = \<lparr>stack = Absent, applied = [], repositories = [], rejected = [], unhealthy = []\<rparr>"

text \<open>The stack of the end-to-end scenario after a deployment with the parameters of \<open>ready\<close>.\<close>

definition converged_cloud :: cloud where
  "converged_cloud =
     \<lparr>stack = UpdateComplete,
      applied =
        [(''Environment'', ''production''),
         (''DatabasePassword'', ''blogpassword''),
         (''BackendRepositoryUri'', ''587210148146.dkr.ecr.us-east-1.amazonaws.com/blog-backend''),
         (''FrontendRepositoryUri'', ''587210148146.dkr.ecr.us-east-1.amazonaws.com/blog-frontend'')],
      repositories = [''blog-backend'', ''blog-frontend''], rejected = [], unhealthy = []\<rparr>"

definition busy_cloud :: cloud where
  "busy_cloud = converged_cloud\<lparr>stack := Updating\<rparr>"


definition half_rejecting_cloud :: cloud where
  "half_rejecting_cloud = converged_cloud\<lparr>rejected := [''production-frontend-svc'']\<rparr>"

definition frontend_down_cloud :: cloud where
  "frontend_down_cloud = converged_cloud\<lparr>unhealthy := [''http://alb.example.com/health'']\<rparr>"

definition unhealthy_cloud :: cloud where
  "unhealthy_cloud =
     fresh_cloud\<lparr>unhealthy :=
       [''http://alb.example.com/health'', ''http://alb.example.com/api/health'']\<rparr>"

text \<open>
  A world in which the CLI cannot read the template file (the script is started from
  another directory than the repository root): a submission fails in the CLI, with its
  message for an unreadable parameter file and exit status 252.
\<close>

definition no_template :: "'w plane \<Rightarrow> 'w plane" where
  "no_template step w c =
     (case c of
        CfnUpdateStack n ps r \<Rightarrow>
          (\<lparr>rc = 252, out = [],
            err = ''Error parsing parameter '--template-body': Unable to load paramfile file://infrastructure/cloudformation/main.yaml: [Errno 2] No such file or directory'' @ [CHR 0x0A]\<rparr>, w)
      | CfnCreateStack n ps r \<Rightarrow>
          (\<lparr>rc = 252, out = [],
            err = ''Error parsing parameter '--template-body': Unable to load paramfile file://infrastructure/cloudformation/main.yaml: [Errno 2] No such file or directory'' @ [CHR 0x0A]\<rparr>, w)
      | _ \<Rightarrow> step w c)"

text \<open>
  A world with one fault: the command number \<open>k\<close> of the run (counting from 0) gets the
  answer \<open>a\<close> and does not reach the world below, every other command is answered by
  that world. Two such answers: a request that the control plane throttles, and a command
  ended by a termination signal.
\<close>

definition fault_at :: "nat \<Rightarrow> response \<Rightarrow> 'w plane \<Rightarrow> (nat \<times> 'w) plane" where
  "fault_at k a step w c =
     (if fst w = k then (a, (Suc (fst w), snd w))
      else (fst (step (snd w) c), (Suc (fst w), snd (step (snd w) c))))"

definition throttled :: response where
  "throttled = failed 254 ''An error occurred (Throttling) when calling the DescribeStacks operation: Rate exceeded''"

definition terminated :: response where
  "terminated = \<lparr>rc = 143, out = [], err = ''Terminated'' @ [CHR 0x0A]\<rparr>"

section \<open>Observations of a run\<close>

text \<open>The commands a stage issued and the lines it wrote, after those of the shell it started in.\<close>

definition issued :: "('w sh \<Rightarrow> 'w result) \<Rightarrow> 'w sh \<Rightarrow> (cmd \<times> nat) list" where
  "issued f s = drop (length (trace s)) (trace (final (f s)))"

definition printed :: "('w sh \<Rightarrow> 'w result) \<Rightarrow> 'w sh \<Rightarrow> line list" where
  "printed f s = drop (length (console s)) (console (final (f s)))"

text \<open>The lines the script itself writes, as opposed to what an external command writes.\<close>

fun is_own :: "line \<Rightarrow> bool" where
  "is_own (Ext t) = False"
| "is_own l = True"

fun is_error :: "line \<Rightarrow> bool" where
  "is_error (Error t) = True"
| "is_error l = False"

fun text_of :: "line \<Rightarrow> string" where
  "text_of (Info t) = t"
| "text_of (Warning t) = t"
| "text_of (Error t) = t"
| "text_of (Echo t) = t"
| "text_of (Ext t) = t"

definition mentions :: "string \<Rightarrow> line list \<Rightarrow> bool" where
  "mentions name ls = list_ex (\<lambda>l. contains (text_of l) name) ls"

text \<open>Replacement requests to the services, and create or update submissions of the stack.\<close>

fun is_rollout :: "cmd \<Rightarrow> bool" where
  "is_rollout (EcsUpdateService c sv r) = True"
| "is_rollout c = False"

definition rollouts :: "(cmd \<times> nat) list \<Rightarrow> (cmd \<times> nat) list" where
  "rollouts t = filter (\<lambda>e. is_rollout (fst e)) t"

fun is_submission :: "cmd \<Rightarrow> bool" where
  "is_submission (CfnUpdateStack n ps r) = True"
| "is_submission (CfnCreateStack n ps r) = True"
| "is_submission c = False"

definition submissions :: "(cmd \<times> nat) list \<Rightarrow> cmd list" where
  "submissions t = filter is_submission (map fst t)"

text \<open>Registry commands, descriptions of a repository and pushes.\<close>

fun is_repository_cmd :: "cmd \<Rightarrow> bool" where
  "is_repository_cmd (EcrDescribeRepositories n r) = True"
| "is_repository_cmd (EcrCreateRepository n r) = True"
| "is_repository_cmd c = False"

fun is_probe :: "cmd \<Rightarrow> bool" where
  "is_probe (EcrDescribeRepositories n r) = True"
| "is_probe c = False"

fun is_push :: "cmd \<Rightarrow> bool" where
  "is_push (DockerPush t) = True"
| "is_push c = False"

text \<open>
  The command list of \<open>build_and_push_images\<close> in two parts: the repository step, and the
  login, builds, tags and pushes that follow it.
\<close>

definition repository_step :: "'w plane \<Rightarrow> ('w sh \<Rightarrow> 'w result) list" where
  "repository_step step =
     [print_status ''Building and pushing Docker images...'',
      print_status ''Creating ECR repositories if they don't exist...'',
      (\<lambda>s. or_else step (EcrDescribeRepositories ''blog-backend'' (AWS_REGION (vars s)))
                         (EcrCreateRepository ''blog-backend'' (AWS_REGION (vars s))) s),
      (\<lambda>s. or_else step (EcrDescribeRepositories ''blog-frontend'' (AWS_REGION (vars s)))
                         (EcrCreateRepository ''blog-frontend'' (AWS_REGION (vars s))) s)]"

definition image_steps :: "'w plane \<Rightarrow> ('w sh \<Rightarrow> 'w result) list" where
  "image_steps step =
     [print_status ''Logging in to ECR...'',
      ecr_login step,
      print_status ''Building backend image...'',
      run step (Cd ''backend''),
      run step (DockerBuild ''backend:latest''),
      run step (Cd ''..''),
      print_status ''Building frontend image...'',
      run step (Cd ''frontend''),
      run step (DockerBuild ''frontend:latest''),
      run step (Cd ''..''),
      print_status ''Tagging and pushing backend image...'',
      (\<lambda>s. run step (DockerTag ''backend:latest'' (registry (vars s) @ ''/blog-backend:latest'')) s),
      (\<lambda>s. run step (DockerPush (registry (vars s) @ ''/blog-backend:latest'')) s),
      print_status ''Tagging and pushing frontend image...'',
      (\<lambda>s. run step (DockerTag ''frontend:latest'' (registry (vars s) @ ''/blog-frontend:latest'')) s),
      (\<lambda>s. run step (DockerPush (registry (vars s) @ ''/blog-frontend:latest'')) s),
      print_status ''Docker images built and pushed successfully.'']"

text \<open>The world after a list of commands was sent to it, one after the other.\<close>

definition replay :: "'w plane \<Rightarrow> 'w \<Rightarrow> cmd list \<Rightarrow> 'w" where
  "replay step w cs = foldl (\<lambda>w c. snd (step w c)) w cs"

text \<open>
  A log holds a retry when a command that ended with a non-zero status is issued again
  later in the log.
\<close>

fun retried :: "(cmd \<times> nat) list \<Rightarrow> bool" where
  "retried [] = False"
| "retried (e # t) = ((snd e \<noteq> 0 \<and> fst e \<in> set (map fst t)) \<or> retried t)"

text \<open>
  The part of the pipeline a command belongs to: 0 for the identity lookup of the
  prerequisites, 1 for the build, 2 for the convergence of the stack, 3 for what reads the
  outputs of the stack or follows: the rollout, the health checks and the information.
\<close>

fun phase :: "cmd \<Rightarrow> nat" where
  "phase StsGetCallerIdentity = 0"
| "phase (EcrDescribeRepositories n r) = 1"
| "phase (EcrCreateRepository n r) = 1"
| "phase (EcrGetLoginPassword r) = 1"
| "phase (DockerLogin g p) = 1"
| "phase (Cd d) = 1"
| "phase (DockerBuild t) = 1"
| "phase (DockerTag a b) = 1"
| "phase (DockerPush t) = 1"
| "phase (CfnDescribeStacks n r None) = 2"
| "phase (CfnDescribeStacks n r (Some k)) = 3"
| "phase (CfnUpdateStack n ps r) = 2"
| "phase (CfnCreateStack n ps r) = 2"
| "phase (CfnWait k n r) = 2"
| "phase (EcsUpdateService c sv r) = 3"
| "phase (Sleep n) = 3"
| "phase (Curl u) = 3"

fun is_lookup :: "cmd \<Rightarrow> bool" where
  "is_lookup (CfnDescribeStacks n r (Some k)) = True"
| "is_lookup c = False"

fun is_curl :: "cmd \<Rightarrow> bool" where
  "is_curl (Curl u) = True"
| "is_curl c = False"

text \<open>
  A stage is \<open>tidy\<close> for a set \<open>K\<close> of commands and a set \<open>T\<close> of tolerated commands
  when every run of it only appends to the log, what it appends holds no retry and only
  commands of \<open>K\<close>, and, when the stage goes on, every command it issued that ended
  with a non-zero status is in \<open>T\<close>.
\<close>

definition tidy :: "(cmd \<Rightarrow> bool) \<Rightarrow> (cmd \<Rightarrow> bool) \<Rightarrow> ('w sh \<Rightarrow> 'w result) \<Rightarrow> bool" where
  "tidy K T f =
     (\<forall>s. take (length (trace s)) (trace (final (f s))) = trace s
        \<and> \<not> retried (issued f s)
        \<and> (\<forall>e \<in> set (issued f s). K (fst e))
        \<and> (succeeded (f s) \<longrightarrow> (\<forall>e \<in> set (issued f s). snd e \<noteq> 0 \<longrightarrow> T (fst e))))"

section \<open>Properties\<close>

subsection \<open>What each command does to the shell\<close>

text \<open>
  A list of commands is run by looking at the first: when it exits, so does the list.
  The lemmas below give, for each kind of command, whether it goes on, its exit status and
  the shell it leaves; the proofs unfold a stage one command at a time with them.
\<close>

lemma seq_step: "seq (f # fs) s = (if succeeded (f s) then seq fs (final (f s)) else f s)"
  by (cases "f s") simp_all

declare seq.simps(2) [simp del]

lemma seq_append:
  "seq (fs @ gs) s = (if succeeded (seq fs s) then seq gs (final (seq fs s)) else seq fs s)"
  by (induction fs arbitrary: s) (simp_all add: seq_step)

lemma if_then_obs:
  "b s \<Longrightarrow> if_then b body s = seq body s"
  "\<not> b s \<Longrightarrow> if_then b body s = Next s"
  by (simp_all add: if_then_def)

lemma emit_obs:
  "vars (emit l s) = vars s"
  "installed (emit l s) = installed s"
  "world (emit l s) = world s"
  "trace (emit l s) = trace s"
  "console (emit l s) = console s @ [l]"
  by (simp_all add: emit_def)

lemma status_eq: "status step c s = rc (fst (step (world s) c))"
  by (simp add: status_def answer_def)

lemma answer_eq: "answer step c s = fst (step (world s) c)"
  by (simp add: answer_def)

lemma attempt_obs:
  "vars (attempt step c shown s) = vars s"
  "installed (attempt step c shown s) = installed s"
  "world (attempt step c shown s) = snd (step (world s) c)"
  "trace (attempt step c shown s) = trace s @ [(c, rc (fst (step (world s) c)))]"
  "console (attempt step c shown s) = console s @ [Ext (shown (fst (step (world s) c)))]"
  by (simp_all add: attempt_def status_def answer_def)

lemma print_obs:
  "succeeded (print_status m s)" "final (print_status m s) = emit (Info m) s"
  "succeeded (print_warning m s)" "final (print_warning m s) = emit (Warning m) s"
  "succeeded (print_error m s)" "final (print_error m s) = emit (Error m) s"
  "succeeded (echo m s)" "final (echo m s) = emit (Echo m) s"
  "exit_code (print_status m s) = 0" "exit_code (print_warning m s) = 0"
  "exit_code (print_error m s) = 0" "exit_code (echo m s) = 0"
  by (simp_all add: print_status_def print_warning_def print_error_def echo_def)

lemma exit_with_obs:
  "\<not> succeeded (exit_with n s)" "final (exit_with n s) = s" "exit_code (exit_with n s) = n"
  by (simp_all add: exit_with_def)

lemma run_obs:
  "succeeded (run step c s) = (rc (fst (step (world s) c)) = 0)"
  "final (run step c s) = attempt step c both s"
  "exit_code (run step c s) = rc (fst (step (world s) c))"
  by (simp_all add: run_def status_def answer_def)

lemma capture_obs:
  "succeeded (capture step c assign s) = (rc (fst (step (world s) c)) = 0)"
  "final (capture step c assign s) =
     (attempt step c err s)\<lparr>vars := assign (chomp (out (fst (step (world s) c)))) (vars s)\<rparr>"
  "exit_code (capture step c assign s) = rc (fst (step (world s) c))"
  by (simp_all add: capture_def status_def answer_def)

lemma or_else_obs:
  "succeeded (or_else step a b s) =
     (rc (fst (step (world s) a)) = 0 \<or> rc (fst (step (snd (step (world s) a)) b)) = 0)"
  "final (or_else step a b s) =
     (if rc (fst (step (world s) a)) = 0 then attempt step a both s
      else attempt step b both (attempt step a both s))"
  "exit_code (or_else step a b s) =
     (if rc (fst (step (world s) a)) = 0 then 0 else rc (fst (step (snd (step (world s) a)) b)))"
  by (simp_all add: or_else_def run_obs status_eq attempt_obs)

lemma ecr_login_obs:
  "succeeded (ecr_login step s) =
     (rc (fst (step (snd (step (world s) (EcrGetLoginPassword (AWS_REGION (vars s)))))
        (DockerLogin (registry (vars s))
           (out (fst (step (world s) (EcrGetLoginPassword (AWS_REGION (vars s))))))))) = 0)"
  "final (ecr_login step s) =
     attempt step
       (DockerLogin (registry (vars s))
          (out (fst (step (world s) (EcrGetLoginPassword (AWS_REGION (vars s)))))))
       both (attempt step (EcrGetLoginPassword (AWS_REGION (vars s))) err s)"
  "exit_code (ecr_login step s) =
     rc (fst (step (snd (step (world s) (EcrGetLoginPassword (AWS_REGION (vars s)))))
        (DockerLogin (registry (vars s))
           (out (fst (step (world s) (EcrGetLoginPassword (AWS_REGION (vars s)))))))))"
  by (simp_all add: ecr_login_def run_obs answer_eq attempt_obs)

lemma health_check_obs:
  "succeeded (health_check step path good bad s)"
  "final (health_check step path good bad s) =
     emit (if rc (fst (step (world s) (Curl (''http://'' @ ALB_DNS (vars s) @ path)))) = 0
           then Info good else Warning bad)
       (attempt step (Curl (''http://'' @ ALB_DNS (vars s) @ path)) err s)"
  "exit_code (health_check step path good bad s) = 0"
  by (simp_all add: health_check_def print_obs status_eq)

lemmas sh_simps =
  seq_step emit_obs attempt_obs print_obs exit_with_obs run_obs capture_obs
  or_else_obs ecr_login_obs health_check_obs

subsection \<open>The substring test\<close>

text \<open>The pattern match of the script is the substring relation on texts.\<close>

lemma starts_with_iff: "starts_with t pat \<longleftrightarrow> (\<exists>q. t = pat @ q)"
  by (induction t pat rule: starts_with.induct) auto

lemma contains_iff: "contains t pat \<longleftrightarrow> (\<exists>p q. t = p @ pat @ q)"
proof (induction t)
  case Nil
  then show ?case by auto
next
  case (Cons c cs)
  show ?case
  proof
    assume "contains (c # cs) pat"
    then consider "starts_with (c # cs) pat" | "contains cs pat" by auto
    then show "\<exists>p q. c # cs = p @ pat @ q"
    proof cases
      case 1
      then obtain q where "c # cs = pat @ q" by (auto simp: starts_with_iff)
      then have "c # cs = [] @ pat @ q" by simp
      then show ?thesis by blast
    next
      case 2
      then obtain p q where "cs = p @ pat @ q" using Cons.IH by auto
      then have "c # cs = (c # p) @ pat @ q" by simp
      then show ?thesis by blast
    qed
  next
    assume "\<exists>p q. c # cs = p @ pat @ q"
    then obtain p q where e: "c # cs = p @ pat @ q" by auto
    show "contains (c # cs) pat"
    proof (cases p)
      case Nil
      with e have "starts_with (c # cs) pat" by (auto simp: starts_with_iff)
      then show ?thesis by simp
    next
      case (Cons a p')
      with e have "cs = p' @ pat @ q" by simp
      then have "contains cs pat" using Cons.IH by blast
      then show ?thesis by simp
    qed
  qed
qed

subsection \<open>The command log of a stage\<close>

text \<open>
  Logs compose: a stage started where another one ended appends its commands to those of
  the first, and the two together hold no retry when a command the first tolerated is
  never a command of the second.
\<close>

lemma issued_compose:
  assumes "take (length a) b = a" and "take (length b) c = b"
  shows "drop (length a) c = drop (length a) b @ drop (length b) c"
    and "take (length a) c = a"
proof -
  obtain b' where b: "b = a @ b'"
    using assms(1) by (metis append_take_drop_id)
  obtain c' where c: "c = b @ c'"
    using assms(2) by (metis append_take_drop_id)
  show "drop (length a) c = drop (length a) b @ drop (length b) c"
    by (simp add: b c)
  show "take (length a) c = a"
    by (simp add: b c)
qed

lemma retried_append:
  "retried (t @ u) =
     (retried t \<or> retried u \<or> (\<exists>e \<in> set t. snd e \<noteq> 0 \<and> fst e \<in> fst ` set u))"
  by (induction t) auto

lemma tidy_then:
  assumes f: "tidy K T f" and g: "tidy K' T' g"
    and d: "\<forall>c. T c \<longrightarrow> \<not> K' c"
    and h: "\<forall>s. h s = (if succeeded (f s) then g (final (f s)) else f s)"
  shows "tidy (\<lambda>c. K c \<or> K' c) (\<lambda>c. T c \<or> T' c) h"
  unfolding tidy_def
proof (intro allI)
  fix s
  let ?s1 = "final (f s)"
  have f1: "take (length (trace s)) (trace ?s1) = trace s"
    and f2: "\<not> retried (issued f s)"
    and f3: "\<forall>e \<in> set (issued f s). K (fst e)"
    and f4: "succeeded (f s) \<longrightarrow> (\<forall>e \<in> set (issued f s). snd e \<noteq> 0 \<longrightarrow> T (fst e))"
    using f unfolding tidy_def by blast+
  have g1: "take (length (trace ?s1)) (trace (final (g ?s1))) = trace ?s1"
    and g2: "\<not> retried (issued g ?s1)"
    and g3: "\<forall>e \<in> set (issued g ?s1). K' (fst e)"
    and g4: "succeeded (g ?s1) \<longrightarrow> (\<forall>e \<in> set (issued g ?s1). snd e \<noteq> 0 \<longrightarrow> T' (fst e))"
    using g unfolding tidy_def by blast+
  show "take (length (trace s)) (trace (final (h s))) = trace s
        \<and> \<not> retried (issued h s)
        \<and> (\<forall>e \<in> set (issued h s). K (fst e) \<or> K' (fst e))
        \<and> (succeeded (h s) \<longrightarrow> (\<forall>e \<in> set (issued h s). snd e \<noteq> 0 \<longrightarrow> T (fst e) \<or> T' (fst e)))"
  proof (cases "succeeded (f s)")
    case False
    then have "h s = f s" using h by simp
    then have i: "issued h s = issued f s" and n: "\<not> succeeded (h s)"
      using False by (simp_all add: issued_def)
    show ?thesis
      using f1 f2 f3 n \<open>h s = f s\<close> unfolding i by simp
  next
    case True
    then have e: "h s = g ?s1" using h by simp
    have i: "issued h s = issued f s @ issued g ?s1"
      using issued_compose(1) [OF f1 g1] by (simp add: issued_def e)
    have x: "take (length (trace s)) (trace (final (h s))) = trace s"
      using issued_compose(2) [OF f1 g1] by (simp add: e)
    have cross: "\<not> (\<exists>e \<in> set (issued f s). snd e \<noteq> 0 \<and> fst e \<in> fst ` set (issued g ?s1))"
      using f4 g3 d True by fastforce
    have r: "\<not> retried (issued h s)"
      using f2 g2 cross unfolding i retried_append by blast
    show ?thesis
      using x r f3 g3 f4 g4 True unfolding i e by auto
  qed
qed

lemma tidy_weaken:
  assumes "tidy K T f" and "\<And>c. K c \<Longrightarrow> K' c" and "\<And>c. T c \<Longrightarrow> T' c"
  shows "tidy K' T' f"
  using assms unfolding tidy_def by blast

lemma tidy_cons:
  assumes "tidy K T f" and "tidy K' T' (seq fs)" and "\<forall>c. T c \<longrightarrow> \<not> K' c"
  shows "tidy (\<lambda>c. K c \<or> K' c) (\<lambda>c. T c \<or> T' c) (seq (f # fs))"
  by (rule tidy_then [where h = "seq (f # fs)" and f = f and g = "seq fs",
        OF assms(1) assms(2) assms(3)]) (intro allI, rule seq_step)

lemma tidy_append:
  assumes "tidy K T (seq fs)" and "tidy K' T' (seq gs)" and "\<forall>c. T c \<longrightarrow> \<not> K' c"
  shows "tidy (\<lambda>c. K c \<or> K' c) (\<lambda>c. T c \<or> T' c) (seq (fs @ gs))"
  by (rule tidy_then [where h = "seq (fs @ gs)" and f = "seq fs" and g = "seq gs",
        OF assms(1) assms(2) assms(3)]) (intro allI, rule seq_append)

lemma tidy_quiet:
  "tidy (\<lambda>c. False) (\<lambda>c. False) (seq [])"
  "tidy (\<lambda>c. False) (\<lambda>c. False) (print_status m)"
  by (simp_all add: tidy_def issued_def sh_simps)

text \<open>
  Stages whose commands all run under \<^verbatim>\<open>set -e\<close> tolerate nothing: a command that
  fails is the last one.
\<close>

lemma tidy_strict:
  "tidy K (\<lambda>c. False) (seq [])"
  "tidy K (\<lambda>c. False) f \<Longrightarrow> tidy K (\<lambda>c. False) (seq fs) \<Longrightarrow> tidy K (\<lambda>c. False) (seq (f # fs))"
  "tidy K (\<lambda>c. False) (seq body) \<Longrightarrow> tidy K (\<lambda>c. False) (if_then b body)"
  "tidy K (\<lambda>c. False) (exit_with n)"
  "tidy K (\<lambda>c. False) (print_status m)"
  "tidy K (\<lambda>c. False) (print_error m)"
  "tidy K (\<lambda>c. False) (echo m)"
  "tidy K (\<lambda>c. False) (\<lambda>s. print_status (g s) s)"
  "K c \<Longrightarrow> tidy K (\<lambda>c. False) (capture step c assign)"
proof -
  show "tidy K (\<lambda>c. False) (seq [])"
    by (simp add: tidy_def issued_def)
  show "tidy K (\<lambda>c. False) (seq (f # fs))"
    if "tidy K (\<lambda>c. False) f" and "tidy K (\<lambda>c. False) (seq fs)"
    by (rule tidy_weaken [OF tidy_cons [OF that]]) auto
  show "tidy K (\<lambda>c. False) (if_then b body)" if "tidy K (\<lambda>c. False) (seq body)"
    using that by (simp add: tidy_def issued_def if_then_def)
  show "tidy K (\<lambda>c. False) (exit_with n)"
    by (simp add: tidy_def issued_def sh_simps)
  show "tidy K (\<lambda>c. False) (print_status m)"
    by (simp add: tidy_def issued_def sh_simps)
  show "tidy K (\<lambda>c. False) (print_error m)"
    by (simp add: tidy_def issued_def sh_simps)
  show "tidy K (\<lambda>c. False) (echo m)"
    by (simp add: tidy_def issued_def sh_simps)
  show "tidy K (\<lambda>c. False) (\<lambda>s. print_status (g s) s)"
    by (simp add: tidy_def issued_def sh_simps)
  show "tidy K (\<lambda>c. False) (capture step c assign)" if "K c"
    using that by (simp add: tidy_def issued_def sh_simps)
qed

lemma tidy_check: "tidy (\<lambda>c. phase c = 0) (\<lambda>c. False) (check_prerequisites step)"
  unfolding check_prerequisites_def by (intro tidy_strict) simp

text \<open>The stages, one by one; the build in its two parts.\<close>

lemma build_split: "build_and_push_images step = seq (repository_step step @ image_steps step)"
  by (simp add: build_and_push_images_def repository_step_def image_steps_def)

lemma tidy_repository_step: "tidy is_repository_cmd is_probe (seq (repository_step step))"
  unfolding tidy_def
  apply (intro allI)
  apply (simp add: issued_def sh_simps repository_step_def split del: if_split)
  apply ((split if_split, rule conjI; rule impI;
          simp add: issued_def sh_simps split del: if_split)+)
  done

lemma tidy_image_steps:
  "tidy (\<lambda>c. phase c = 1 \<and> \<not> is_repository_cmd c) (\<lambda>c. phase c = 1 \<and> \<not> is_repository_cmd c)
     (seq (image_steps step))"
  unfolding tidy_def
  apply (intro allI)
  apply (simp add: issued_def sh_simps image_steps_def split del: if_split)
  apply ((split if_split, rule conjI; rule impI;
          simp add: issued_def sh_simps split del: if_split)+)
  done

lemma phase_facts:
  "is_repository_cmd c \<Longrightarrow> phase c = 1"
  "is_probe c \<Longrightarrow> phase c = 1"
  "is_probe c \<Longrightarrow> is_repository_cmd c"
  "is_lookup c \<Longrightarrow> phase c = 3"
  "is_curl c \<Longrightarrow> phase c = 3"
  "is_curl c \<Longrightarrow> \<not> is_lookup c"
  by (cases c rule: phase.cases; simp)+

lemma tidy_build: "tidy (\<lambda>c. phase c = 1) (\<lambda>c. phase c = 1) (build_and_push_images step)"
  unfolding build_split
  by (rule tidy_weaken [OF tidy_append [OF tidy_repository_step tidy_image_steps]])
     (auto simp add: phase_facts)

lemma tidy_infrastructure:
  "tidy (\<lambda>c. phase c = 2) (\<lambda>c. phase c = 2) (deploy_infrastructure step)"
  unfolding tidy_def
  apply (intro allI)
  apply (simp add: issued_def sh_simps deploy_infrastructure_def stack_exists_def update_stack_def
      update_stack_request_def create_stack_def status_eq answer_eq split del: if_split)
  apply ((split if_split, rule conjI; rule impI;
          simp add: issued_def sh_simps deploy_infrastructure_def stack_exists_def update_stack_def
      update_stack_request_def create_stack_def status_eq answer_eq split del: if_split)+)
  done

lemma tidy_application: "tidy (\<lambda>c. phase c = 3) (\<lambda>c. False) (deploy_application step)"
  unfolding tidy_def
  apply (intro allI)
  apply (simp add: issued_def sh_simps stack_output_def deploy_application_def split del: if_split)
  apply ((split if_split, rule conjI; rule impI;
          simp add: issued_def sh_simps stack_output_def split del: if_split)+)
  done

lemma tidy_health: "tidy (\<lambda>c. phase c = 3) is_curl (run_health_checks step)"
  unfolding tidy_def
  apply (intro allI)
  apply (simp add: issued_def sh_simps stack_output_def run_health_checks_def split del: if_split)
  apply ((split if_split, rule conjI; rule impI;
          simp add: issued_def sh_simps stack_output_def split del: if_split)+)
  done

lemma tidy_info: "tidy is_lookup (\<lambda>c. False) (get_deployment_info step)"
  unfolding tidy_def
  apply (intro allI)
  apply (simp add: issued_def sh_simps stack_output_def get_deployment_info_def split del: if_split)
  apply ((split if_split, rule conjI; rule impI;
          simp add: issued_def sh_simps stack_output_def split del: if_split)+)
  done

text \<open>The stages in sequence: \<open>main\<close>, and the script for every subcommand.\<close>

lemma tidy_pair:
  assumes "tidy K (\<lambda>c. False) f" and "tidy K' T g"
  shows "tidy (\<lambda>c. True) (\<lambda>c. True) (seq [f, g])"
proof -
  have "tidy K' T (seq [g])"
    by (rule tidy_weaken [OF tidy_cons [OF assms(2) tidy_quiet(1)]]) auto
  then show ?thesis
    by (rule tidy_weaken [OF tidy_cons [OF assms(1)]]) auto
qed

lemma tidy_main_tail:
  fixes step :: "'w plane"
  shows "tidy (\<lambda>c. phase c = 3) is_curl
     (seq [deploy_application step, run_health_checks step, get_deployment_info step,
           print_status ''Deployment completed successfully!''])"
    (is ?app)
  "tidy (\<lambda>c. phase c = 3) is_curl
     (seq [run_health_checks step, get_deployment_info step,
           print_status ''Deployment completed successfully!''])"
    (is ?health)
  "tidy is_lookup (\<lambda>c. False)
     (seq [get_deployment_info step, print_status ''Deployment completed successfully!''])"
    (is ?info)
  "tidy (\<lambda>c. False) (\<lambda>c. False)
     (seq [print_status ''Deployment completed successfully!'' :: 'w sh \<Rightarrow> 'w result])"
    (is ?print)
proof -
  show r7: ?print
    by (intro tidy_strict)
  show r6: ?info
    by (rule tidy_weaken [OF tidy_cons [OF tidy_info r7]]) auto
  show r5: ?health
    by (rule tidy_weaken [OF tidy_cons [OF tidy_health r6]]) (auto simp: phase_facts)
  show ?app
    by (rule tidy_weaken [OF tidy_cons [OF tidy_application r5]]) auto
qed

lemma tidy_main_head:
  "tidy (\<lambda>c. True) (\<lambda>c. True)
     (seq [check_prerequisites step, build_and_push_images step, deploy_infrastructure step,
           deploy_application step, run_health_checks step, get_deployment_info step,
           print_status ''Deployment completed successfully!''])"
    (is ?check)
  "tidy (\<lambda>c. phase c = 1 \<or> phase c = 2 \<or> phase c = 3) (\<lambda>c. True)
     (seq [build_and_push_images step, deploy_infrastructure step,
           deploy_application step, run_health_checks step, get_deployment_info step,
           print_status ''Deployment completed successfully!''])"
    (is ?build)
  "tidy (\<lambda>c. phase c = 2 \<or> phase c = 3) (\<lambda>c. True)
     (seq [deploy_infrastructure step,
           deploy_application step, run_health_checks step, get_deployment_info step,
           print_status ''Deployment completed successfully!''])"
    (is ?infra)
proof -
  show r3: ?infra
    by (rule tidy_weaken [OF tidy_cons [OF tidy_infrastructure tidy_main_tail(1)]]) auto
  show r2: ?build
    by (rule tidy_weaken [OF tidy_cons [OF tidy_build r3]]) auto
  show ?check
    by (rule tidy_weaken [OF tidy_cons [OF tidy_check r2]]) auto
qed

lemma tidy_main: "tidy (\<lambda>c. True) (\<lambda>c. True) (main step)"
  unfolding main_def
  by (rule tidy_weaken [OF tidy_cons [OF tidy_quiet(2) tidy_main_head(1)]]) auto

lemma tidy_usage: "tidy (\<lambda>c. True) (\<lambda>c. False) (usage argv0)"
  unfolding usage_def by (intro tidy_strict)

lemma tidy_script:
  fixes step :: "'w plane"
  shows "tidy (\<lambda>c. True) (\<lambda>c. True) (script step argv0 args)"
proof -
  have u: "tidy (\<lambda>c. True) (\<lambda>c. True) (usage argv0 :: 'w sh \<Rightarrow> 'w result)"
    by (rule tidy_weaken [OF tidy_usage]) auto
  show ?thesis
    using u tidy_main [of step]
      tidy_pair [OF tidy_check tidy_build, of step step]
      tidy_pair [OF tidy_check tidy_infrastructure, of step step]
      tidy_pair [OF tidy_check tidy_application, of step step]
      tidy_pair [OF tidy_check tidy_health, of step step]
      tidy_pair [OF tidy_check tidy_info, of step step]
    by (simp add: script_def Let_def)
qed

lemma nothing_retried: "\<not> retried (issued (script step argv0 args) s)"
  using tidy_script [of step argv0 args] unfolding tidy_def by blast

lemma issued_cons:
  assumes "tidy K T f" and "tidy K' T' (seq fs)" and "succeeded (f s)"
  shows "issued (seq (f # fs)) s = issued f s @ issued (seq fs) (final (f s))"
proof -
  have f: "take (length (trace s)) (trace (final (f s))) = trace s"
    using assms(1) unfolding tidy_def by blast
  have g: "take (length (trace (final (f s)))) (trace (final (seq fs (final (f s)))))
      = trace (final (f s))"
    using assms(2) unfolding tidy_def by blast
  show ?thesis
    using issued_compose(1) [OF f g] assms(3) by (simp add: issued_def seq_step)
qed

subsection \<open>Dispatch\<close>

text \<open>
  C9. Invoking the script with no subcommand is the same as invoking it with
  \<^verbatim>\<open>deploy\<close>, and what runs is the full pipeline: after the opening line, the
  prerequisites, the build, the infrastructure, the application rollout, the health checks
  and the deployment information, each started in the shell the one before left and only
  when that one went on; the first stage that exits ends the script with its result, and
  after the last the closing line is written. When the script goes on to the end, the
  commands it issued are those of the six stages, in this order.
\<close>

theorem default_subcommand_is_deploy:
  fixes step :: "'w plane" and s :: "'w sh"
  defines "s0 \<equiv> emit (Info ''Starting deployment process...'') s"
  defines "s1 \<equiv> final (check_prerequisites step s0)"
  defines "s2 \<equiv> final (build_and_push_images step s1)"
  defines "s3 \<equiv> final (deploy_infrastructure step s2)"
  defines "s4 \<equiv> final (deploy_application step s3)"
  defines "s5 \<equiv> final (run_health_checks step s4)"
  defines "s6 \<equiv> final (get_deployment_info step s5)"
  shows "script step argv0 [] s = script step argv0 [''deploy''] s
       \<and> script step argv0 [] s =
           (if \<not> succeeded (check_prerequisites step s0) then check_prerequisites step s0
            else if \<not> succeeded (build_and_push_images step s1) then build_and_push_images step s1
            else if \<not> succeeded (deploy_infrastructure step s2) then deploy_infrastructure step s2
            else if \<not> succeeded (deploy_application step s3) then deploy_application step s3
            else if \<not> succeeded (run_health_checks step s4) then run_health_checks step s4
            else if \<not> succeeded (get_deployment_info step s5) then get_deployment_info step s5
            else Next (emit (Info ''Deployment completed successfully!'') s6))
       \<and> (succeeded (script step argv0 [] s) \<longrightarrow>
            issued (script step argv0 []) s =
              issued (check_prerequisites step) s0 @ issued (build_and_push_images step) s1
              @ issued (deploy_infrastructure step) s2 @ issued (deploy_application step) s3
              @ issued (run_health_checks step) s4 @ issued (get_deployment_info step) s5)"
proof -
  let ?done = "print_status ''Deployment completed successfully!'' :: 'w sh \<Rightarrow> 'w result"
  have d: "script step argv0 [] = main step" "script step argv0 [''deploy''] = main step"
    by (simp_all add: script_def default_to_def)
  have m: "main step s =
           (if \<not> succeeded (check_prerequisites step s0) then check_prerequisites step s0
            else if \<not> succeeded (build_and_push_images step s1) then build_and_push_images step s1
            else if \<not> succeeded (deploy_infrastructure step s2) then deploy_infrastructure step s2
            else if \<not> succeeded (deploy_application step s3) then deploy_application step s3
            else if \<not> succeeded (run_health_checks step s4) then run_health_checks step s4
            else if \<not> succeeded (get_deployment_info step s5) then get_deployment_info step s5
            else Next (emit (Info ''Deployment completed successfully!'') s6))"
    unfolding s0_def s1_def s2_def s3_def s4_def s5_def s6_def
    by (simp add: main_def seq_step print_obs)
  have i: "issued (main step) s =
              issued (check_prerequisites step) s0 @ issued (build_and_push_images step) s1
              @ issued (deploy_infrastructure step) s2 @ issued (deploy_application step) s3
              @ issued (run_health_checks step) s4 @ issued (get_deployment_info step) s5"
    if ok: "succeeded (main step s)"
  proof -
    have all: "succeeded (check_prerequisites step s0)" "succeeded (build_and_push_images step s1)"
      "succeeded (deploy_infrastructure step s2)" "succeeded (deploy_application step s3)"
      "succeeded (run_health_checks step s4)" "succeeded (get_deployment_info step s5)"
      using ok unfolding m by (simp_all split: if_splits)
    have "issued (main step) s =
        issued (seq [check_prerequisites step, build_and_push_images step,
          deploy_infrastructure step, deploy_application step, run_health_checks step,
          get_deployment_info step, ?done]) s0"
      by (simp add: issued_def main_def seq_step print_obs s0_def emit_obs)
    also have "\<dots> = issued (check_prerequisites step) s0 @
        issued (seq [build_and_push_images step,
          deploy_infrastructure step, deploy_application step, run_health_checks step,
          get_deployment_info step, ?done]) s1"
      unfolding s1_def by (rule issued_cons [OF tidy_check tidy_main_head(2) all(1)])
    also have "issued (seq [build_and_push_images step,
          deploy_infrastructure step, deploy_application step, run_health_checks step,
          get_deployment_info step, ?done]) s1 = issued (build_and_push_images step) s1 @
        issued (seq [deploy_infrastructure step, deploy_application step, run_health_checks step,
          get_deployment_info step, ?done]) s2"
      unfolding s2_def by (rule issued_cons [OF tidy_build tidy_main_head(3) all(2)])
    also have "issued (seq [deploy_infrastructure step, deploy_application step,
          run_health_checks step, get_deployment_info step, ?done]) s2 =
        issued (deploy_infrastructure step) s2 @
        issued (seq [deploy_application step, run_health_checks step,
          get_deployment_info step, ?done]) s3"
      unfolding s3_def by (rule issued_cons [OF tidy_infrastructure tidy_main_tail(1) all(3)])
    also have "issued (seq [deploy_application step, run_health_checks step,
          get_deployment_info step, ?done]) s3 =
        issued (deploy_application step) s3 @
        issued (seq [run_health_checks step, get_deployment_info step, ?done]) s4"
      unfolding s4_def by (rule issued_cons [OF tidy_application tidy_main_tail(2) all(4)])
    also have "issued (seq [run_health_checks step, get_deployment_info step, ?done]) s4 =
        issued (run_health_checks step) s4 @
        issued (seq [get_deployment_info step, ?done]) s5"
      unfolding s5_def by (rule issued_cons [OF tidy_health tidy_main_tail(3) all(5)])
    also have "issued (seq [get_deployment_info step, ?done]) s5 =
        issued (get_deployment_info step) s5 @ issued (seq [?done]) s6"
      unfolding s6_def by (rule issued_cons [OF tidy_info tidy_main_tail(4) all(6)])
    also have "issued (seq [?done]) s6 = []"
      by (simp add: issued_def seq_step print_obs emit_obs)
    finally show ?thesis
      by simp
  qed
  show ?thesis
    using m i unfolding d by blast
qed

theorem default_subcommand_is_deploy_witness:
  "script cloud_step ''deploy.sh'' [] (ready fresh_cloud)
     = script cloud_step ''deploy.sh'' [''deploy''] (ready fresh_cloud)
   \<and> exit_code (script cloud_step ''deploy.sh'' [] (ready fresh_cloud)) = 0
   \<and> map fst (issued (script cloud_step ''deploy.sh'' []) (ready fresh_cloud)) =
       [EcrDescribeRepositories ''blog-backend'' ''us-east-1'',
        EcrCreateRepository ''blog-backend'' ''us-east-1'',
        EcrDescribeRepositories ''blog-frontend'' ''us-east-1'',
        EcrCreateRepository ''blog-frontend'' ''us-east-1'',
        EcrGetLoginPassword ''us-east-1'',
        DockerLogin ''587210148146.dkr.ecr.us-east-1.amazonaws.com'' ''token'',
        Cd ''backend'', DockerBuild ''backend:latest'', Cd ''..'',
        Cd ''frontend'', DockerBuild ''frontend:latest'', Cd ''..'',
        DockerTag ''backend:latest'' ''587210148146.dkr.ecr.us-east-1.amazonaws.com/blog-backend:latest'',
        DockerPush ''587210148146.dkr.ecr.us-east-1.amazonaws.com/blog-backend:latest'',
        DockerTag ''frontend:latest'' ''587210148146.dkr.ecr.us-east-1.amazonaws.com/blog-frontend:latest'',
        DockerPush ''587210148146.dkr.ecr.us-east-1.amazonaws.com/blog-frontend:latest'']
       @ [CfnDescribeStacks ''blog-app-stack'' ''us-east-1'' None,
          CfnCreateStack ''blog-app-stack''
            [(''Environment'', ''production''),
             (''DatabasePassword'', ''blogpassword''),
             (''BackendRepositoryUri'', ''587210148146.dkr.ecr.us-east-1.amazonaws.com/blog-backend''),
             (''FrontendRepositoryUri'', ''587210148146.dkr.ecr.us-east-1.amazonaws.com/blog-frontend'')]
            ''us-east-1'',
          CfnWait ''stack-create-complete'' ''blog-app-stack'' ''us-east-1'']
       @ [CfnDescribeStacks ''blog-app-stack'' ''us-east-1'' (Some ''ECSClusterName''),
          CfnDescribeStacks ''blog-app-stack'' ''us-east-1'' (Some ''BackendServiceName''),
          CfnDescribeStacks ''blog-app-stack'' ''us-east-1'' (Some ''FrontendServiceName''),
          EcsUpdateService ''production-cluster'' ''production-backend-svc'' ''us-east-1'',
          EcsUpdateService ''production-cluster'' ''production-frontend-svc'' ''us-east-1'']
       @ [CfnDescribeStacks ''blog-app-stack'' ''us-east-1'' (Some ''ALBDNSName''),
          Sleep 120,
          Curl ''http://alb.example.com/health'',
          Curl ''http://alb.example.com/api/health'']
       @ [CfnDescribeStacks ''blog-app-stack'' ''us-east-1'' (Some ''ALBDNSName'')]"
proof -
  let ?s0 = "emit (Info ''Starting deployment process...'') (ready fresh_cloud)"
  let ?s1 = "final (check_prerequisites cloud_step ?s0)"
  let ?s2 = "final (build_and_push_images cloud_step ?s1)"
  let ?s3 = "final (deploy_infrastructure cloud_step ?s2)"
  let ?s4 = "final (deploy_application cloud_step ?s3)"
  let ?s5 = "final (run_health_checks cloud_step ?s4)"
  have ok: "succeeded (script cloud_step ''deploy.sh'' [] (ready fresh_cloud))"
    by code_simp
  have e: "exit_code (script cloud_step ''deploy.sh'' [] (ready fresh_cloud)) = 0"
    by code_simp
  have c: "issued (check_prerequisites cloud_step) ?s0 = []"
    by code_simp
  have b: "map fst (issued (build_and_push_images cloud_step) ?s1) =
       [EcrDescribeRepositories ''blog-backend'' ''us-east-1'',
        EcrCreateRepository ''blog-backend'' ''us-east-1'',
        EcrDescribeRepositories ''blog-frontend'' ''us-east-1'',
        EcrCreateRepository ''blog-frontend'' ''us-east-1'',
        EcrGetLoginPassword ''us-east-1'',
        DockerLogin ''587210148146.dkr.ecr.us-east-1.amazonaws.com'' ''token'',
        Cd ''backend'', DockerBuild ''backend:latest'', Cd ''..'',
        Cd ''frontend'', DockerBuild ''frontend:latest'', Cd ''..'',
        DockerTag ''backend:latest'' ''587210148146.dkr.ecr.us-east-1.amazonaws.com/blog-backend:latest'',
        DockerPush ''587210148146.dkr.ecr.us-east-1.amazonaws.com/blog-backend:latest'',
        DockerTag ''frontend:latest'' ''587210148146.dkr.ecr.us-east-1.amazonaws.com/blog-frontend:latest'',
        DockerPush ''587210148146.dkr.ecr.us-east-1.amazonaws.com/blog-frontend:latest'']"
    by code_simp
  have i: "map fst (issued (deploy_infrastructure cloud_step) ?s2) =
         [CfnDescribeStacks ''blog-app-stack'' ''us-east-1'' None,
          CfnCreateStack ''blog-app-stack''
            [(''Environment'', ''production''),
             (''DatabasePassword'', ''blogpassword''),
             (''BackendRepositoryUri'', ''587210148146.dkr.ecr.us-east-1.amazonaws.com/blog-backend''),
             (''FrontendRepositoryUri'', ''587210148146.dkr.ecr.us-east-1.amazonaws.com/blog-frontend'')]
            ''us-east-1'',
          CfnWait ''stack-create-complete'' ''blog-app-stack'' ''us-east-1'']"
    by code_simp
  have a: "map fst (issued (deploy_application cloud_step) ?s3) =
         [CfnDescribeStacks ''blog-app-stack'' ''us-east-1'' (Some ''ECSClusterName''),
          CfnDescribeStacks ''blog-app-stack'' ''us-east-1'' (Some ''BackendServiceName''),
          CfnDescribeStacks ''blog-app-stack'' ''us-east-1'' (Some ''FrontendServiceName''),
          EcsUpdateService ''production-cluster'' ''production-backend-svc'' ''us-east-1'',
          EcsUpdateService ''production-cluster'' ''production-frontend-svc'' ''us-east-1'']"
    by code_simp
  have h: "map fst (issued (run_health_checks cloud_step) ?s4) =
         [CfnDescribeStacks ''blog-app-stack'' ''us-east-1'' (Some ''ALBDNSName''),
          Sleep 120,
          Curl ''http://alb.example.com/health'',
          Curl ''http://alb.example.com/api/health'']"
    by code_simp
  have g: "map fst (issued (get_deployment_info cloud_step) ?s5) =
         [CfnDescribeStacks ''blog-app-stack'' ''us-east-1'' (Some ''ALBDNSName'')]"
    by code_simp
  from default_subcommand_is_deploy
    [where step = cloud_step and s = "ready fresh_cloud" and ?argv0.0 = "''deploy.sh''"]
  have "script cloud_step ''deploy.sh'' [] (ready fresh_cloud)
        = script cloud_step ''deploy.sh'' [''deploy''] (ready fresh_cloud)"
    and "issued (script cloud_step ''deploy.sh'' []) (ready fresh_cloud) =
         issued (check_prerequisites cloud_step) ?s0 @ issued (build_and_push_images cloud_step) ?s1
         @ issued (deploy_infrastructure cloud_step) ?s2 @ issued (deploy_application cloud_step) ?s3
         @ issued (run_health_checks cloud_step) ?s4 @ issued (get_deployment_info cloud_step) ?s5"
    using ok by blast+
  then show ?thesis
    using e c b i a h g by (simp only: map_append list.map append_Nil simp_thms)
qed

subsection \<open>Prerequisites\<close>

text \<open>
  C8. Whatever the subcommand, when the AWS CLI or Docker is not installed or
  \<^verbatim>\<open>DATABASE_PASSWORD\<close> is empty, the script exits with status 1 and has issued no
  external command at all: the log of commands and the world are as they were.
\<close>

theorem missing_prerequisite_fails_fast:
  assumes "\<not> List.member (installed s) ''aws'' \<or> \<not> List.member (installed s) ''docker''
           \<or> DATABASE_PASSWORD (vars s) = []"
  shows "exit_code (script step argv0 args s) = 1
         \<and> trace (final (script step argv0 args s)) = trace s
         \<and> world (final (script step argv0 args s)) = world s"
proof -
  have c: "\<not> succeeded (check_prerequisites step s') \<and> exit_code (check_prerequisites step s') = 1
      \<and> trace (final (check_prerequisites step s')) = trace s'
      \<and> world (final (check_prerequisites step s')) = world s'"
    if same: "installed s' = installed s" "vars s' = vars s" for s' :: "'a sh"
  proof -
    consider (aws) "\<not> List.member (installed s) ''aws''"
      | (docker) "List.member (installed s) ''aws''" "\<not> List.member (installed s) ''docker''"
      | (password) "List.member (installed s) ''aws''" "List.member (installed s) ''docker''"
          "DATABASE_PASSWORD (vars s) = []"
      using assms by blast
    then show ?thesis
    proof cases
      case aws
      with same show ?thesis
        by (simp add: check_prerequisites_def if_then_obs sh_simps)
    next
      case docker
      with same show ?thesis
        by (simp add: check_prerequisites_def if_then_obs sh_simps)
    next
      case password
      with same show ?thesis
        by (simp add: check_prerequisites_def if_then_obs sh_simps)
    qed
  qed
  have c0: "\<not> succeeded (check_prerequisites step s) \<and> exit_code (check_prerequisites step s) = 1
      \<and> trace (final (check_prerequisites step s)) = trace s
      \<and> world (final (check_prerequisites step s)) = world s"
    using c [of s] by simp
  have c1: "\<not> succeeded (check_prerequisites step (emit l s))
      \<and> exit_code (check_prerequisites step (emit l s)) = 1
      \<and> trace (final (check_prerequisites step (emit l s))) = trace s
      \<and> world (final (check_prerequisites step (emit l s))) = world s" for l
    using c [of "emit l s"] by (simp add: emit_obs)
  have u: "exit_code (usage argv0 s) = 1 \<and> trace (final (usage argv0 s)) = trace s
      \<and> world (final (usage argv0 s)) = world s"
    by (simp add: usage_def sh_simps)
  have m: "exit_code (main step s) = 1 \<and> trace (final (main step s)) = trace s
      \<and> world (final (main step s)) = world s"
    using c1 by (simp add: main_def sh_simps)
  have k: "exit_code (seq [check_prerequisites step, f] s) = 1
      \<and> trace (final (seq [check_prerequisites step, f] s)) = trace s
      \<and> world (final (seq [check_prerequisites step, f] s)) = world s" for f
    using c0 by (simp add: seq_step)
  show ?thesis
    using u m k by (simp add: script_def Let_def)
qed

theorem missing_prerequisite_fails_fast_witness:
  "DATABASE_PASSWORD (vars (startup (\<lambda>v. []) [''aws'', ''docker''] fresh_cloud)) = []
   \<and> exit_code (script cloud_step ''deploy.sh'' [''build'']
        (startup (\<lambda>v. []) [''aws'', ''docker''] fresh_cloud)) = 1
   \<and> trace (final (script cloud_step ''deploy.sh'' [''build'']
        (startup (\<lambda>v. []) [''aws'', ''docker''] fresh_cloud))) = []"
  using missing_prerequisite_fails_fast
    [of "startup (\<lambda>v. []) [''aws'', ''docker''] fresh_cloud" cloud_step
        "''deploy.sh''" "[''build'']"]
  by (simp add: startup_def default_to_def)

subsection \<open>Stack convergence\<close>

lemmas infra_simps =
  deploy_infrastructure_def stack_exists_def update_stack_def update_stack_request_def
  create_stack_def status_eq answer_eq sh_simps

text \<open>
  C1. Against a stack that exists, when the control plane answers the update submission
  with the text \<^verbatim>\<open>No updates are to be performed\<close> and neither the description nor
  that answer changes the control plane, the convergence stage succeeds, and run again
  from where it ended it succeeds again: the control plane is as it was before the first
  run, and the second run issued the description and the update submission and nothing
  else (no creation, no wait).
\<close>

theorem rerun_is_noop:
  assumes "rc (fst (step (world s) (CfnDescribeStacks STACK_NAME (AWS_REGION (vars s)) None))) = 0"
    and "snd (step (world s) (CfnDescribeStacks STACK_NAME (AWS_REGION (vars s)) None)) = world s"
    and "contains (CLOUDFORMATION_ERROR (fst (step (world s)
           (CfnUpdateStack STACK_NAME (stack_parameters (vars s)) (AWS_REGION (vars s))))))
           ''No updates are to be performed''"
    and "snd (step (world s)
           (CfnUpdateStack STACK_NAME (stack_parameters (vars s)) (AWS_REGION (vars s)))) = world s"
  shows "succeeded (deploy_infrastructure step s)
         \<and> succeeded (deploy_infrastructure step (final (deploy_infrastructure step s)))
         \<and> world (final (deploy_infrastructure step (final (deploy_infrastructure step s)))) = world s
         \<and> map fst (issued (deploy_infrastructure step) (final (deploy_infrastructure step s))) =
               [CfnDescribeStacks STACK_NAME (AWS_REGION (vars s)) None,
                CfnUpdateStack STACK_NAME (stack_parameters (vars s)) (AWS_REGION (vars s))]"
proof -
  have first: "succeeded (deploy_infrastructure step s)
      \<and> world (final (deploy_infrastructure step s)) = world s
      \<and> vars (final (deploy_infrastructure step s)) = vars s"
    using assms by (simp add: infra_simps)
  have "succeeded (deploy_infrastructure step s')
      \<and> world (final (deploy_infrastructure step s')) = world s
      \<and> map fst (issued (deploy_infrastructure step) s') =
               [CfnDescribeStacks STACK_NAME (AWS_REGION (vars s)) None,
                CfnUpdateStack STACK_NAME (stack_parameters (vars s)) (AWS_REGION (vars s))]"
    if "world s' = world s" and "vars s' = vars s" for s' :: "'a sh"
    using assms that by (simp add: infra_simps issued_def)
  with first show ?thesis by blast
qed

theorem rerun_is_noop_witness:
  "rc (fst (cloud_step (world (ready converged_cloud))
        (CfnDescribeStacks STACK_NAME (AWS_REGION (vars (ready converged_cloud))) None))) = 0
   \<and> contains (CLOUDFORMATION_ERROR (fst (cloud_step (world (ready converged_cloud))
        (CfnUpdateStack STACK_NAME (stack_parameters (vars (ready converged_cloud)))
           (AWS_REGION (vars (ready converged_cloud)))))))
        ''No updates are to be performed''
   \<and> succeeded (deploy_infrastructure cloud_step (ready converged_cloud))
   \<and> succeeded (deploy_infrastructure cloud_step
        (final (deploy_infrastructure cloud_step (ready converged_cloud))))
   \<and> world (final (deploy_infrastructure cloud_step
        (final (deploy_infrastructure cloud_step (ready converged_cloud))))) = converged_cloud"
proof -
  have h1: "rc (fst (cloud_step (world (ready converged_cloud))
        (CfnDescribeStacks STACK_NAME (AWS_REGION (vars (ready converged_cloud))) None))) = 0"
    by code_simp
  have h2: "snd (cloud_step (world (ready converged_cloud))
        (CfnDescribeStacks STACK_NAME (AWS_REGION (vars (ready converged_cloud))) None))
        = world (ready converged_cloud)"
    by code_simp
  have h3: "contains (CLOUDFORMATION_ERROR (fst (cloud_step (world (ready converged_cloud))
        (CfnUpdateStack STACK_NAME (stack_parameters (vars (ready converged_cloud)))
           (AWS_REGION (vars (ready converged_cloud)))))))
        ''No updates are to be performed''"
    by code_simp
  have h4: "snd (cloud_step (world (ready converged_cloud))
        (CfnUpdateStack STACK_NAME (stack_parameters (vars (ready converged_cloud)))
           (AWS_REGION (vars (ready converged_cloud)))))
        = world (ready converged_cloud)"
    by code_simp
  have w: "world (ready converged_cloud) = converged_cloud"
    by (simp add: ready_def)
  from rerun_is_noop [where step = cloud_step and s = "ready converged_cloud", OF h1 h2 h3 h4]
    h1 h3 w
  show ?thesis by simp
qed

text \<open>
  C2, as stated, fails: against a stack in state \<open>updating\<close> the convergence stage issues
  an update submission.
\<close>

theorem busy_stack_update_submitted:
  "stack busy_cloud = Updating
   \<and> submissions (trace (final (deploy_infrastructure cloud_step (ready busy_cloud)))) =
       [CfnUpdateStack ''blog-app-stack''
          [(''Environment'', ''production''),
           (''DatabasePassword'', ''blogpassword''),
           (''BackendRepositoryUri'', ''587210148146.dkr.ecr.us-east-1.amazonaws.com/blog-backend''),
           (''FrontendRepositoryUri'', ''587210148146.dkr.ecr.us-east-1.amazonaws.com/blog-frontend'')]
          ''us-east-1'']"
  by code_simp

text \<open>
  C2, amended. When the stack exists (its description exits with status 0), whatever its
  state, the convergence stage submits exactly one update and no creation; it exits with
  status 1 when the text captured from the submission contains \<^verbatim>\<open>error\<close> and not
  \<^verbatim>\<open>No updates are to be performed\<close>, which is how a busy stack, refused by the
  control plane, ends the run.
\<close>

theorem existing_stack_is_updated:
  assumes "rc (fst (step (world s) (CfnDescribeStacks STACK_NAME (AWS_REGION (vars s)) None))) = 0"
  shows "submissions (issued (deploy_infrastructure step) s) =
           [CfnUpdateStack STACK_NAME (stack_parameters (vars s)) (AWS_REGION (vars s))]
         \<and> (contains (CLOUDFORMATION_ERROR (fst (step
                 (snd (step (world s) (CfnDescribeStacks STACK_NAME (AWS_REGION (vars s)) None)))
                 (CfnUpdateStack STACK_NAME (stack_parameters (vars s)) (AWS_REGION (vars s))))))
               ''error''
            \<and> \<not> contains (CLOUDFORMATION_ERROR (fst (step
                 (snd (step (world s) (CfnDescribeStacks STACK_NAME (AWS_REGION (vars s)) None)))
                 (CfnUpdateStack STACK_NAME (stack_parameters (vars s)) (AWS_REGION (vars s))))))
                 ''No updates are to be performed''
            \<longrightarrow> exit_code (deploy_infrastructure step s) = 1)"
  using assms
  apply (simp add: infra_simps issued_def submissions_def split del: if_split)
  apply ((split if_split, rule conjI; rule impI;
          simp add: infra_simps issued_def submissions_def split del: if_split)+)
  done

theorem existing_stack_is_updated_witness:
  "rc (fst (cloud_step (world (ready busy_cloud))
        (CfnDescribeStacks STACK_NAME (AWS_REGION (vars (ready busy_cloud))) None))) = 0
   \<and> submissions (issued (deploy_infrastructure cloud_step) (ready busy_cloud)) =
        [CfnUpdateStack STACK_NAME (stack_parameters (vars (ready busy_cloud)))
           (AWS_REGION (vars (ready busy_cloud)))]
   \<and> exit_code (deploy_infrastructure cloud_step (ready busy_cloud)) = 1"
proof -
  have h: "rc (fst (cloud_step (world (ready busy_cloud))
        (CfnDescribeStacks STACK_NAME (AWS_REGION (vars (ready busy_cloud))) None))) = 0"
    by code_simp
  have e: "contains (CLOUDFORMATION_ERROR (fst (cloud_step
        (snd (cloud_step (world (ready busy_cloud))
           (CfnDescribeStacks STACK_NAME (AWS_REGION (vars (ready busy_cloud))) None)))
        (CfnUpdateStack STACK_NAME (stack_parameters (vars (ready busy_cloud)))
           (AWS_REGION (vars (ready busy_cloud))))))) ''error''"
    by code_simp
  have n: "\<not> contains (CLOUDFORMATION_ERROR (fst (cloud_step
        (snd (cloud_step (world (ready busy_cloud))
           (CfnDescribeStacks STACK_NAME (AWS_REGION (vars (ready busy_cloud))) None)))
        (CfnUpdateStack STACK_NAME (stack_parameters (vars (ready busy_cloud)))
           (AWS_REGION (vars (ready busy_cloud)))))))
        ''No updates are to be performed''"
    by code_simp
  from existing_stack_is_updated [where step = cloud_step and s = "ready busy_cloud", OF h] h e n
  show ?thesis by simp
qed

text \<open>
  C3. The classification of an error answer is not two-way. With the template file
  unreadable the submission fails with status 252 and a message that contains neither
  marker (\<^verbatim>\<open>Error\<close> has a capital E); the script takes the third branch, waits for an
  update that was never submitted, and the \<^verbatim>\<open>infrastructure\<close> subcommand ends with
  status 0 against a stack that is already update-complete.
\<close>

theorem unclassified_error_proceeds:
  "trace (final (script (no_template cloud_step) ''deploy.sh'' [''infrastructure'']
       (ready converged_cloud))) =
     [(CfnDescribeStacks ''blog-app-stack'' ''us-east-1'' None, 0),
      (CfnUpdateStack ''blog-app-stack'' (applied converged_cloud) ''us-east-1'', 252),
      (CfnWait ''stack-update-complete'' ''blog-app-stack'' ''us-east-1'', 0)]
   \<and> filter is_error (console (final (script (no_template cloud_step) ''deploy.sh''
       [''infrastructure''] (ready converged_cloud)))) = []
   \<and> exit_code (script (no_template cloud_step) ''deploy.sh'' [''infrastructure'']
       (ready converged_cloud)) = 0"
  by code_simp

subsection \<open>Rollout\<close>

lemmas rollout_simps = deploy_application_def stack_output_def sh_simps issued_def printed_def

text \<open>
  C5, as stated, fails: with the backend request accepted and the frontend request
  rejected, the only line the script itself writes is its opening status line, and no line
  on the terminal names the rejected service.
\<close>

theorem partial_rollout_not_reported:
  "rollouts (trace (final (deploy_application cloud_step (ready half_rejecting_cloud)))) =
     [(EcsUpdateService ''production-cluster'' ''production-backend-svc'' ''us-east-1'', 0),
      (EcsUpdateService ''production-cluster'' ''production-frontend-svc'' ''us-east-1'', 254)]
   \<and> filter is_own (console (final (deploy_application cloud_step (ready half_rejecting_cloud)))) =
       [Info ''Deploying application...'']
   \<and> \<not> mentions ''production-frontend-svc''
         (console (final (deploy_application cloud_step (ready half_rejecting_cloud))))"
  by code_simp

lemma rejected_rollout:
  "(EcsUpdateService c sv r, n) \<in> set (issued (deploy_application step) s) \<and> n \<noteq> 0 \<longrightarrow>
     \<not> succeeded (deploy_application step s) \<and> exit_code (deploy_application step s) = n
     \<and> last (issued (deploy_application step) s) = (EcsUpdateService c sv r, n)
     \<and> filter is_own (printed (deploy_application step) s) = [Info ''Deploying application...'']"
  apply (simp add: rollout_simps split del: if_split)
  apply ((split if_split, rule conjI; rule impI; simp add: rollout_simps split del: if_split)+)
   apply auto
  done

text \<open>
  C5, amended. When a replacement request is rejected (the other accepted or not), the
  rollout stage ends the script with the non-zero status of the rejected request, which is
  the last command issued: after a rejected backend request the frontend request is not
  issued at all. The script writes no line of its own about the failure.
\<close>

theorem rejected_rollout_aborts:
  assumes "(EcsUpdateService c sv r, n) \<in> set (issued (deploy_application step) s)"
    and "n \<noteq> 0"
  shows "\<not> succeeded (deploy_application step s) \<and> exit_code (deploy_application step s) = n
         \<and> last (issued (deploy_application step) s) = (EcsUpdateService c sv r, n)
         \<and> filter is_own (printed (deploy_application step) s) = [Info ''Deploying application...'']"
  using assms rejected_rollout [of c sv r n step s] by blast

theorem rejected_rollout_aborts_witness:
  "(EcsUpdateService ''production-cluster'' ''production-frontend-svc'' ''us-east-1'', 254)
     \<in> set (issued (deploy_application cloud_step) (ready half_rejecting_cloud))
   \<and> exit_code (deploy_application cloud_step (ready half_rejecting_cloud)) = 254
   \<and> last (issued (deploy_application cloud_step) (ready half_rejecting_cloud)) =
       (EcsUpdateService ''production-cluster'' ''production-frontend-svc'' ''us-east-1'', 254)"
proof -
  have h: "(EcsUpdateService ''production-cluster'' ''production-frontend-svc'' ''us-east-1'', 254)
     \<in> set (issued (deploy_application cloud_step) (ready half_rejecting_cloud))"
    by code_simp
  have n: "(254 :: nat) \<noteq> 0"
    by simp
  from rejected_rollout_aborts [OF h n] h show ?thesis
    by simp
qed





subsection \<open>Health verification\<close>

text \<open>
  The health stage in terms of the answers of the world: the commands it issues with
  their statuses, whether it goes on, its exit status and the lines it writes itself.
\<close>

lemmas health_simps = run_health_checks_def stack_output_def sh_simps issued_def printed_def

lemma health_stage:
  fixes step :: "'w plane" and s :: "'w sh"
  defines "lookup \<equiv> CfnDescribeStacks STACK_NAME (AWS_REGION (vars s)) (Some ''ALBDNSName'')"
  defines "a0 \<equiv> fst (step (world s) lookup)" and "w1 \<equiv> snd (step (world s) lookup)"
  defines "a1 \<equiv> fst (step w1 (Sleep 120))" and "w2 \<equiv> snd (step w1 (Sleep 120))"
  defines "front \<equiv> Curl (''http://'' @ chomp (out a0) @ ''/health'')"
    and "back \<equiv> Curl (''http://'' @ chomp (out a0) @ ''/api/health'')"
  defines "a2 \<equiv> fst (step w2 front)" and "w3 \<equiv> snd (step w2 front)"
  defines "a3 \<equiv> fst (step w3 back)"
  shows "issued (run_health_checks step) s =
           (lookup, rc a0) #
           (if rc a0 = 0
            then (Sleep 120, rc a1) #
                 (if rc a1 = 0 then [(front, rc a2), (back, rc a3)] else [])
            else [])"
    and "succeeded (run_health_checks step s) = (rc a0 = 0 \<and> rc a1 = 0)"
    and "exit_code (run_health_checks step s) = (if rc a0 = 0 then rc a1 else rc a0)"
    and "rc a0 = 0 \<Longrightarrow> rc a1 = 0 \<Longrightarrow>
         filter is_own (printed (run_health_checks step) s) =
           [Info ''Running health checks...'',
            Info ''Waiting for services to be ready (2 minutes)...'',
            Info ''Checking frontend health...'',
            if rc a2 = 0 then Info ''Frontend health check passed.''
            else Warning ''Frontend health check failed. The application might still be starting up.'',
            Info ''Checking backend health...'',
            if rc a3 = 0 then Info ''Backend health check passed.''
            else Warning ''Backend health check failed. The API might still be starting up.'']"
  unfolding lookup_def a0_def w1_def a1_def w2_def front_def back_def a2_def w3_def a3_def
  by (simp_all add: health_simps)

text \<open>
  C7, as stated, fails: when the frontend health address answers with a failure, the
  health stage has asked it once; it sleeps once, before the first request, and goes on to
  the backend address without another attempt.
\<close>

theorem failed_health_check_not_retried:
  "trace (final (run_health_checks cloud_step (ready frontend_down_cloud))) =
     [(CfnDescribeStacks ''blog-app-stack'' ''us-east-1'' (Some ''ALBDNSName''), 0),
      (Sleep 120, 0),
      (Curl ''http://alb.example.com/health'', 22),
      (Curl ''http://alb.example.com/api/health'', 0)]"
  by code_simp

text \<open>
  C7, amended. The health stage issues the lookup of the entry-point address; when that
  exits with status 0, one sleep of 120 seconds; and when that exits with status 0 too,
  exactly one request to the frontend health address and then exactly one to the backend
  health address, whatever the first answered. There is no retry and no delay between
  attempts. With lookup and sleep at status 0, the lines the stage writes are its progress
  lines and, for each address, the line saying that the check passed when its single
  request exited with status 0 and a warning otherwise. The log of the health stage holds
  no retry, and neither does the log of the script, whatever the subcommand: no command
  that ended with a non-zero status is issued again.
\<close>

theorem health_checks_single_attempt:
  fixes step :: "'w plane" and s :: "'w sh"
  defines "lookup \<equiv> CfnDescribeStacks STACK_NAME (AWS_REGION (vars s)) (Some ''ALBDNSName'')"
  defines "a0 \<equiv> fst (step (world s) lookup)" and "w1 \<equiv> snd (step (world s) lookup)"
  defines "a1 \<equiv> fst (step w1 (Sleep 120))" and "w2 \<equiv> snd (step w1 (Sleep 120))"
  defines "front \<equiv> Curl (''http://'' @ chomp (out a0) @ ''/health'')"
    and "back \<equiv> Curl (''http://'' @ chomp (out a0) @ ''/api/health'')"
  defines "a2 \<equiv> fst (step w2 front)" and "w3 \<equiv> snd (step w2 front)"
  defines "a3 \<equiv> fst (step w3 back)"
  shows "issued (run_health_checks step) s =
           (lookup, rc a0) #
           (if rc a0 = 0
            then (Sleep 120, rc a1) #
                 (if rc a1 = 0 then [(front, rc a2), (back, rc a3)] else [])
            else [])
       \<and> (rc a0 = 0 \<and> rc a1 = 0 \<longrightarrow>
            filter is_own (printed (run_health_checks step) s) =
              [Info ''Running health checks...'',
               Info ''Waiting for services to be ready (2 minutes)...'',
               Info ''Checking frontend health...'',
               if rc a2 = 0 then Info ''Frontend health check passed.''
               else Warning ''Frontend health check failed. The application might still be starting up.'',
               Info ''Checking backend health...'',
               if rc a3 = 0 then Info ''Backend health check passed.''
               else Warning ''Backend health check failed. The API might still be starting up.''])
       \<and> \<not> retried (issued (run_health_checks step) s)
       \<and> \<not> retried (issued (script step argv0 args) s)"
proof -
  have "\<not> retried (issued (run_health_checks step) s)"
    using tidy_health [of step] unfolding tidy_def by blast
  then show ?thesis
    using health_stage(1) [of step s] health_stage(4) [of step s] nothing_retried [of step argv0 args s]
    unfolding lookup_def a0_def w1_def a1_def w2_def front_def back_def a2_def w3_def a3_def
    by blast
qed

theorem health_checks_single_attempt_witness:
  "issued (run_health_checks cloud_step) (ready frontend_down_cloud) =
     [(CfnDescribeStacks ''blog-app-stack'' ''us-east-1'' (Some ''ALBDNSName''), 0),
      (Sleep 120, 0),
      (Curl ''http://alb.example.com/health'', 22),
      (Curl ''http://alb.example.com/api/health'', 0)]
   \<and> filter is_own (printed (run_health_checks cloud_step) (ready frontend_down_cloud)) =
       [Info ''Running health checks...'',
        Info ''Waiting for services to be ready (2 minutes)...'',
        Info ''Checking frontend health...'',
        Warning ''Frontend health check failed. The application might still be starting up.'',
        Info ''Checking backend health...'',
        Info ''Backend health check passed.'']
   \<and> \<not> retried (issued (script cloud_step ''deploy.sh'' [''health'']) (ready frontend_down_cloud))"
proof -
  let ?s = "ready frontend_down_cloud"
  let ?lookup = "CfnDescribeStacks STACK_NAME (AWS_REGION (vars ?s)) (Some ''ALBDNSName'')"
  let ?a0 = "fst (cloud_step (world ?s) ?lookup)"
  let ?w1 = "snd (cloud_step (world ?s) ?lookup)"
  let ?a1 = "fst (cloud_step ?w1 (Sleep 120))"
  let ?w2 = "snd (cloud_step ?w1 (Sleep 120))"
  let ?web = "Curl (''http://'' @ chomp (out ?a0) @ ''/health'')"
  let ?api = "Curl (''http://'' @ chomp (out ?a0) @ ''/api/health'')"
  let ?a2 = "fst (cloud_step ?w2 ?web)"
  let ?w3 = "snd (cloud_step ?w2 ?web)"
  let ?a3 = "fst (cloud_step ?w3 ?api)"
  have c: "?lookup = CfnDescribeStacks ''blog-app-stack'' ''us-east-1'' (Some ''ALBDNSName'')"
    "?web = Curl ''http://alb.example.com/health''"
    "?api = Curl ''http://alb.example.com/api/health''"
    by code_simp+
  have a: "rc ?a0 = 0" "rc ?a1 = 0" "rc ?a2 = 22" "rc ?a3 = 0"
    by code_simp+
  note t = health_checks_single_attempt
    [where step = cloud_step and s = ?s and ?argv0.0 = "''deploy.sh''" and args = "[''health'']"]
  have "issued (run_health_checks cloud_step) ?s =
      [(?lookup, rc ?a0), (Sleep 120, rc ?a1), (?web, rc ?a2), (?api, rc ?a3)]"
    using t a(1,2) by (simp only: simp_thms if_True)
  then have "issued (run_health_checks cloud_step) ?s =
      [(?lookup, 0), (Sleep 120, 0), (?web, 22), (?api, 0)]"
    by (simp only: a)
  then have "issued (run_health_checks cloud_step) ?s =
      [(?lookup, 0), (Sleep 120, 0),
       (Curl ''http://alb.example.com/health'', 22),
       (Curl ''http://alb.example.com/api/health'', 0)]"
    by (simp only: c(2,3))
  then have i: "issued (run_health_checks cloud_step) ?s =
     [(CfnDescribeStacks ''blog-app-stack'' ''us-east-1'' (Some ''ALBDNSName''), 0),
      (Sleep 120, 0),
      (Curl ''http://alb.example.com/health'', 22),
      (Curl ''http://alb.example.com/api/health'', 0)]"
    by (simp only: c(1))
  have "filter is_own (printed (run_health_checks cloud_step) ?s) =
              [Info ''Running health checks...'',
               Info ''Waiting for services to be ready (2 minutes)...'',
               Info ''Checking frontend health...'',
               if rc ?a2 = 0 then Info ''Frontend health check passed.''
               else Warning ''Frontend health check failed. The application might still be starting up.'',
               Info ''Checking backend health...'',
               if rc ?a3 = 0 then Info ''Backend health check passed.''
               else Warning ''Backend health check failed. The API might still be starting up.'']"
    using t a(1,2) by blast
  then have "filter is_own (printed (run_health_checks cloud_step) ?s) =
              [Info ''Running health checks...'',
               Info ''Waiting for services to be ready (2 minutes)...'',
               Info ''Checking frontend health...'',
               if (22::nat) = 0 then Info ''Frontend health check passed.''
               else Warning ''Frontend health check failed. The application might still be starting up.'',
               Info ''Checking backend health...'',
               if (0::nat) = 0 then Info ''Backend health check passed.''
               else Warning ''Backend health check failed. The API might still be starting up.'']"
    by (simp only: a)
  then have p: "filter is_own (printed (run_health_checks cloud_step) ?s) =
       [Info ''Running health checks...'',
        Info ''Waiting for services to be ready (2 minutes)...'',
        Info ''Checking frontend health...'',
        Warning ''Frontend health check failed. The application might still be starting up.'',
        Info ''Checking backend health...'',
        Info ''Backend health check passed.'']"
    by simp
  have r: "\<not> retried (issued (script cloud_step ''deploy.sh'' [''health'']) ?s)"
    using t by blast
  show ?thesis
    using i p r by blast
qed

text \<open>
  C4, as stated, fails. A full deploy on a fresh control plane issues 24 commands up to
  and including the two replacement requests. When the next one, the lookup of the
  entry-point address by the health stage, is throttled, the prerequisites, the build, the
  convergence and the rollout have gone through and both replacement requests were
  accepted, and the script ends with status 254: the lookup is an assignment under
  \<^verbatim>\<open>set -e\<close>. It likewise ends with status 143 when the sleep of the health stage is
  terminated, and with status 254 when, after two health checks that passed, the lookup of
  the information stage is throttled.
\<close>

theorem health_stage_failure_ends_deploy:
  "succeeded (seq [print_status ''Starting deployment process...'',
       check_prerequisites (fault_at 24 throttled cloud_step),
       build_and_push_images (fault_at 24 throttled cloud_step),
       deploy_infrastructure (fault_at 24 throttled cloud_step),
       deploy_application (fault_at 24 throttled cloud_step)] (ready (0, fresh_cloud)))
   \<and> rollouts (trace (final (script (fault_at 24 throttled cloud_step) ''deploy.sh'' []
        (ready (0, fresh_cloud))))) =
       [(EcsUpdateService ''production-cluster'' ''production-backend-svc'' ''us-east-1'', 0),
        (EcsUpdateService ''production-cluster'' ''production-frontend-svc'' ''us-east-1'', 0)]
   \<and> last (trace (final (script (fault_at 24 throttled cloud_step) ''deploy.sh'' []
        (ready (0, fresh_cloud))))) =
       (CfnDescribeStacks ''blog-app-stack'' ''us-east-1'' (Some ''ALBDNSName''), 254)
   \<and> exit_code (script (fault_at 24 throttled cloud_step) ''deploy.sh'' []
        (ready (0, fresh_cloud))) = 254
   \<and> drop 24 (trace (final (script (fault_at 25 terminated cloud_step) ''deploy.sh'' []
        (ready (0, fresh_cloud))))) =
       [(CfnDescribeStacks ''blog-app-stack'' ''us-east-1'' (Some ''ALBDNSName''), 0),
        (Sleep 120, 143)]
   \<and> exit_code (script (fault_at 25 terminated cloud_step) ''deploy.sh'' []
        (ready (0, fresh_cloud))) = 143
   \<and> drop 24 (trace (final (script (fault_at 28 throttled cloud_step) ''deploy.sh'' []
        (ready (0, fresh_cloud))))) =
       [(CfnDescribeStacks ''blog-app-stack'' ''us-east-1'' (Some ''ALBDNSName''), 0),
        (Sleep 120, 0),
        (Curl ''http://alb.example.com/health'', 0),
        (Curl ''http://alb.example.com/api/health'', 0),
        (CfnDescribeStacks ''blog-app-stack'' ''us-east-1'' (Some ''ALBDNSName''), 254)]
   \<and> exit_code (script (fault_at 28 throttled cloud_step) ''deploy.sh'' []
        (ready (0, fresh_cloud))) = 254"
  by code_simp

text \<open>
  C4, amended. In a full deploy whose stages up to and including the rollout went
  through, when the lookup of the entry-point address and the sleep of the health stage
  exit with status 0 and the final information stage goes through, then whatever the two
  health requests answer: the health stage issues each of them once, writes for each the
  line saying that the check passed when it exited with status 0 and a warning line
  otherwise, writes no error line, and the script ends with status 0.
\<close>

theorem health_checks_are_advisory:
  fixes step :: "'w plane" and s :: "'w sh"
  defines "s1 \<equiv> final (seq [print_status ''Starting deployment process...'',
                 check_prerequisites step, build_and_push_images step,
                 deploy_infrastructure step, deploy_application step] s)"
  defines "lookup \<equiv> CfnDescribeStacks STACK_NAME (AWS_REGION (vars s1)) (Some ''ALBDNSName'')"
  defines "a0 \<equiv> fst (step (world s1) lookup)" and "w1 \<equiv> snd (step (world s1) lookup)"
  defines "a1 \<equiv> fst (step w1 (Sleep 120))" and "w2 \<equiv> snd (step w1 (Sleep 120))"
  defines "front \<equiv> Curl (''http://'' @ chomp (out a0) @ ''/health'')"
    and "back \<equiv> Curl (''http://'' @ chomp (out a0) @ ''/api/health'')"
  defines "a2 \<equiv> fst (step w2 front)" and "w3 \<equiv> snd (step w2 front)"
  defines "a3 \<equiv> fst (step w3 back)"
  assumes stages: "succeeded (seq [print_status ''Starting deployment process...'',
                 check_prerequisites step, build_and_push_images step,
                 deploy_infrastructure step, deploy_application step] s)"
    and lookup: "rc a0 = 0"
    and sleep: "rc a1 = 0"
    and info: "succeeded (get_deployment_info step (final (run_health_checks step s1)))"
  shows "issued (run_health_checks step) s1 =
           [(lookup, 0), (Sleep 120, 0), (front, rc a2), (back, rc a3)]
         \<and> filter is_own (printed (run_health_checks step) s1) =
              [Info ''Running health checks...'',
               Info ''Waiting for services to be ready (2 minutes)...'',
               Info ''Checking frontend health...'',
               if rc a2 = 0 then Info ''Frontend health check passed.''
               else Warning ''Frontend health check failed. The application might still be starting up.'',
               Info ''Checking backend health...'',
               if rc a3 = 0 then Info ''Backend health check passed.''
               else Warning ''Backend health check failed. The API might still be starting up.'']
         \<and> filter is_error (printed (run_health_checks step) s1) = []
         \<and> succeeded (run_health_checks step s1)
         \<and> succeeded (main step s) \<and> exit_code (main step s) = 0"
proof -
  have "main step s =
      seq ([print_status ''Starting deployment process...'',
            check_prerequisites step, build_and_push_images step,
            deploy_infrastructure step, deploy_application step]
           @ [run_health_checks step, get_deployment_info step,
              print_status ''Deployment completed successfully!'']) s"
    by (simp add: main_def)
  then have m: "main step s =
      seq [run_health_checks step, get_deployment_info step,
           print_status ''Deployment completed successfully!''] s1"
    using stages unfolding s1_def by (simp only: seq_append if_True)
  have i: "issued (run_health_checks step) s1 =
           [(lookup, 0), (Sleep 120, 0), (front, rc a2), (back, rc a3)]"
    using health_stage(1) [of step s1] lookup sleep
    unfolding lookup_def a0_def w1_def a1_def w2_def front_def back_def a2_def w3_def a3_def
    by simp
  have p: "filter is_own (printed (run_health_checks step) s1) =
              [Info ''Running health checks...'',
               Info ''Waiting for services to be ready (2 minutes)...'',
               Info ''Checking frontend health...'',
               if rc a2 = 0 then Info ''Frontend health check passed.''
               else Warning ''Frontend health check failed. The application might still be starting up.'',
               Info ''Checking backend health...'',
               if rc a3 = 0 then Info ''Backend health check passed.''
               else Warning ''Backend health check failed. The API might still be starting up.'']"
    using health_stage(4) [of step s1] lookup sleep
    unfolding lookup_def a0_def w1_def a1_def w2_def front_def back_def a2_def w3_def a3_def
    by blast
  have h: "succeeded (run_health_checks step s1)"
    using health_stage(2) [of step s1] lookup sleep
    unfolding lookup_def a0_def w1_def a1_def by blast
  have e: "filter is_error (printed (run_health_checks step) s1) = []"
    using lookup sleep unfolding lookup_def a0_def w1_def a1_def by (simp add: health_simps)
  have "succeeded (main step s)"
    using h info by (simp add: m seq_step print_obs)
  moreover have "exit_code (main step s) = 0"
    using h info by (simp add: m seq_step print_obs)
  ultimately show ?thesis
    using h e i p by blast
qed

theorem health_checks_are_advisory_witness:
  "filter is_own (printed (run_health_checks cloud_step)
      (final (seq [print_status ''Starting deployment process...'',
                 check_prerequisites cloud_step, build_and_push_images cloud_step,
                 deploy_infrastructure cloud_step, deploy_application cloud_step]
               (ready unhealthy_cloud)))) =
     [Info ''Running health checks...'',
      Info ''Waiting for services to be ready (2 minutes)...'',
      Info ''Checking frontend health...'',
      Warning ''Frontend health check failed. The application might still be starting up.'',
      Info ''Checking backend health...'',
      Warning ''Backend health check failed. The API might still be starting up.'']
   \<and> map snd (issued (run_health_checks cloud_step)
      (final (seq [print_status ''Starting deployment process...'',
                 check_prerequisites cloud_step, build_and_push_images cloud_step,
                 deploy_infrastructure cloud_step, deploy_application cloud_step]
               (ready unhealthy_cloud)))) = [0, 0, 22, 22]
   \<and> succeeded (main cloud_step (ready unhealthy_cloud))
   \<and> exit_code (main cloud_step (ready unhealthy_cloud)) = 0"
proof -
  let ?s1 = "final (seq [print_status ''Starting deployment process...'',
                 check_prerequisites cloud_step, build_and_push_images cloud_step,
                 deploy_infrastructure cloud_step, deploy_application cloud_step]
               (ready unhealthy_cloud))"
  let ?lookup = "CfnDescribeStacks STACK_NAME (AWS_REGION (vars ?s1)) (Some ''ALBDNSName'')"
  let ?a0 = "fst (cloud_step (world ?s1) ?lookup)"
  let ?w1 = "snd (cloud_step (world ?s1) ?lookup)"
  let ?a1 = "fst (cloud_step ?w1 (Sleep 120))"
  let ?w2 = "snd (cloud_step ?w1 (Sleep 120))"
  let ?web = "Curl (''http://'' @ chomp (out ?a0) @ ''/health'')"
  let ?api = "Curl (''http://'' @ chomp (out ?a0) @ ''/api/health'')"
  let ?a2 = "fst (cloud_step ?w2 ?web)"
  let ?w3 = "snd (cloud_step ?w2 ?web)"
  let ?a3 = "fst (cloud_step ?w3 ?api)"
  have stages: "succeeded (seq [print_status ''Starting deployment process...'',
                 check_prerequisites cloud_step, build_and_push_images cloud_step,
                 deploy_infrastructure cloud_step, deploy_application cloud_step]
               (ready unhealthy_cloud))"
    by code_simp
  have lookup: "rc ?a0 = 0"
    by code_simp
  have sleep: "rc ?a1 = 0"
    by code_simp
  have info: "succeeded (get_deployment_info cloud_step
      (final (run_health_checks cloud_step ?s1)))"
    by code_simp
  have a: "rc ?a2 = 22" "rc ?a3 = 22"
    by code_simp+
  note t = health_checks_are_advisory
    [where step = cloud_step and s = "ready unhealthy_cloud", OF stages lookup sleep info]
  from t have "filter is_own (printed (run_health_checks cloud_step) ?s1) =
              [Info ''Running health checks...'',
               Info ''Waiting for services to be ready (2 minutes)...'',
               Info ''Checking frontend health...'',
               if rc ?a2 = 0 then Info ''Frontend health check passed.''
               else Warning ''Frontend health check failed. The application might still be starting up.'',
               Info ''Checking backend health...'',
               if rc ?a3 = 0 then Info ''Backend health check passed.''
               else Warning ''Backend health check failed. The API might still be starting up.'']"
    by blast
  then have "filter is_own (printed (run_health_checks cloud_step) ?s1) =
              [Info ''Running health checks...'',
               Info ''Waiting for services to be ready (2 minutes)...'',
               Info ''Checking frontend health...'',
               if (22::nat) = 0 then Info ''Frontend health check passed.''
               else Warning ''Frontend health check failed. The application might still be starting up.'',
               Info ''Checking backend health...'',
               if (22::nat) = 0 then Info ''Backend health check passed.''
               else Warning ''Backend health check failed. The API might still be starting up.'']"
    by (simp only: a)
  then have p: "filter is_own (printed (run_health_checks cloud_step) ?s1) =
     [Info ''Running health checks...'',
      Info ''Waiting for services to be ready (2 minutes)...'',
      Info ''Checking frontend health...'',
      Warning ''Frontend health check failed. The application might still be starting up.'',
      Info ''Checking backend health...'',
      Warning ''Backend health check failed. The API might still be starting up.'']"
    by simp
  from t have "issued (run_health_checks cloud_step) ?s1 =
           [(?lookup, 0), (Sleep 120, 0), (?web, rc ?a2), (?api, rc ?a3)]"
    by blast
  then have "map snd (issued (run_health_checks cloud_step) ?s1) = [0, 0, rc ?a2, rc ?a3]"
    by (simp only: list.map snd_conv)
  then have i: "map snd (issued (run_health_checks cloud_step) ?s1) = [0, 0, 22, 22]"
    by (simp only: a)
  from t have "succeeded (main cloud_step (ready unhealthy_cloud))
      \<and> exit_code (main cloud_step (ready unhealthy_cloud)) = 0"
    by blast
  then show ?thesis
    using p i by blast
qed

subsection \<open>Build\<close>

text \<open>
  The two parts of the build stage in terms of the answers of the world. The repository
  step describes each repository and requests its creation when the description failed;
  the rest starts with the registry login and issues no registry command.
\<close>

lemma replay_append: "replay step w (cs @ ds) = replay step (replay step w cs) ds"
  by (simp add: replay_def)

lemma repository_stage:
  fixes step :: "'w plane" and s :: "'w sh"
  defines "r \<equiv> AWS_REGION (vars s)"
  defines "d_b \<equiv> EcrDescribeRepositories ''blog-backend'' r"
    and "c_b \<equiv> EcrCreateRepository ''blog-backend'' r"
    and "d_f \<equiv> EcrDescribeRepositories ''blog-frontend'' r"
    and "c_f \<equiv> EcrCreateRepository ''blog-frontend'' r"
  defines "a1 \<equiv> fst (step (world s) d_b)" and "w1 \<equiv> snd (step (world s) d_b)"
  defines "a2 \<equiv> fst (step w1 c_b)"
  defines "w2 \<equiv> (if rc a1 = 0 then w1 else snd (step w1 c_b))"
  defines "a3 \<equiv> fst (step w2 d_f)" and "w3 \<equiv> snd (step w2 d_f)"
  defines "a4 \<equiv> fst (step w3 c_f)"
  defines "w4 \<equiv> (if rc a3 = 0 then w3 else snd (step w3 c_f))"
  defines "backend \<equiv> (d_b, rc a1) # (if rc a1 = 0 then [] else [(c_b, rc a2)])"
    and "frontend \<equiv> (d_f, rc a3) # (if rc a3 = 0 then [] else [(c_f, rc a4)])"
  shows "issued (seq (repository_step step)) s =
           (if rc a1 \<noteq> 0 \<and> rc a2 \<noteq> 0 then backend else backend @ frontend)"
    and "succeeded (seq (repository_step step) s) =
           ((rc a1 = 0 \<or> rc a2 = 0) \<and> (rc a3 = 0 \<or> rc a4 = 0))"
    and "exit_code (seq (repository_step step) s) =
           (if rc a1 \<noteq> 0 \<and> rc a2 \<noteq> 0 then rc a2
            else if rc a3 \<noteq> 0 \<and> rc a4 \<noteq> 0 then rc a4 else 0)"
    and "world (final (seq (repository_step step) s)) =
           (if rc a1 \<noteq> 0 \<and> rc a2 \<noteq> 0 then w2 else w4)"
    and "vars (final (seq (repository_step step) s)) = vars s"
    and "world (final (seq (repository_step step) s)) =
           replay step (world s) (map fst (issued (seq (repository_step step)) s))"
  unfolding r_def d_b_def c_b_def d_f_def c_f_def a1_def w1_def a2_def w2_def a3_def w3_def
    a4_def w4_def backend_def frontend_def
  by (simp_all add: repository_step_def sh_simps issued_def replay_def)

lemma image_stage:
  "issued (seq (image_steps step)) s \<noteq> []"
  "hd (issued (seq (image_steps step)) s) =
     (EcrGetLoginPassword (AWS_REGION (vars s)),
      rc (fst (step (world s) (EcrGetLoginPassword (AWS_REGION (vars s))))))"
  "filter (\<lambda>e. is_repository_cmd (fst e)) (issued (seq (image_steps step)) s) = []"
  "world (final (seq (image_steps step) s)) =
     replay step (world s) (map fst (issued (seq (image_steps step)) s))"
     apply (simp_all add: image_steps_def sh_simps issued_def replay_def split del: if_split)
   apply ((split if_split, rule conjI; rule impI;
      simp add: sh_simps issued_def replay_def split del: if_split)+)
  done

text \<open>
  C10. The build stage starts with the registry. It asks for the description of
  \<^verbatim>\<open>blog-backend\<close>; when that fails it requests the creation of the repository, in
  the world the description left, and when the creation fails too the build ends there
  with the status of the creation. Otherwise the same happens for \<^verbatim>\<open>blog-frontend\<close>.
  A repository whose description succeeded is only described. When both repositories are
  there, described or created with status 0, the next command is the registry login, in
  the world these commands left, and no registry command follows, so every push comes
  after them; an image is pushed only in that case. The world the build leaves is the one
  obtained by sending it the commands of the log in order.
\<close>

theorem repositories_created_on_demand:
  fixes step :: "'w plane" and s :: "'w sh"
  defines "r \<equiv> AWS_REGION (vars s)"
  defines "d_b \<equiv> EcrDescribeRepositories ''blog-backend'' r"
    and "c_b \<equiv> EcrCreateRepository ''blog-backend'' r"
    and "d_f \<equiv> EcrDescribeRepositories ''blog-frontend'' r"
    and "c_f \<equiv> EcrCreateRepository ''blog-frontend'' r"
  defines "a1 \<equiv> fst (step (world s) d_b)" and "w1 \<equiv> snd (step (world s) d_b)"
  defines "a2 \<equiv> fst (step w1 c_b)"
  defines "w2 \<equiv> (if rc a1 = 0 then w1 else snd (step w1 c_b))"
  defines "a3 \<equiv> fst (step w2 d_f)" and "w3 \<equiv> snd (step w2 d_f)"
  defines "a4 \<equiv> fst (step w3 c_f)"
  defines "w4 \<equiv> (if rc a3 = 0 then w3 else snd (step w3 c_f))"
  defines "backend \<equiv> (d_b, rc a1) # (if rc a1 = 0 then [] else [(c_b, rc a2)])"
    and "frontend \<equiv> (d_f, rc a3) # (if rc a3 = 0 then [] else [(c_f, rc a4)])"
  defines "t \<equiv> issued (build_and_push_images step) s"
  shows "(if rc a1 \<noteq> 0 \<and> rc a2 \<noteq> 0
          then t = backend \<and> exit_code (build_and_push_images step s) = rc a2
          else if rc a3 \<noteq> 0 \<and> rc a4 \<noteq> 0
          then t = backend @ frontend \<and> exit_code (build_and_push_images step s) = rc a4
          else take (length (backend @ frontend) + 1) t =
                 backend @ frontend
                 @ [(EcrGetLoginPassword r, rc (fst (step w4 (EcrGetLoginPassword r))))]
               \<and> filter (\<lambda>e. is_repository_cmd (fst e)) (drop (length (backend @ frontend)) t) = [])
       \<and> world (final (build_and_push_images step s)) = replay step (world s) (map fst t)
       \<and> (list_ex (\<lambda>e. is_push (fst e)) t \<longrightarrow>
            (rc a1 = 0 \<or> rc a2 = 0) \<and> (rc a3 = 0 \<or> rc a4 = 0))"
proof -
  let ?s1 = "final (seq (repository_step step) s)"
  let ?tp = "issued (seq (repository_step step)) s"
  let ?tr = "issued (seq (image_steps step)) ?s1"
  note defs = r_def d_b_def c_b_def d_f_def c_f_def a1_def w1_def a2_def w2_def a3_def w3_def
    a4_def w4_def backend_def frontend_def
  have tp: "?tp = (if rc a1 \<noteq> 0 \<and> rc a2 \<noteq> 0 then backend else backend @ frontend)"
    unfolding defs by (rule repository_stage(1))
  have ok: "succeeded (seq (repository_step step) s) =
           ((rc a1 = 0 \<or> rc a2 = 0) \<and> (rc a3 = 0 \<or> rc a4 = 0))"
    unfolding defs by (rule repository_stage(2))
  have ex: "exit_code (seq (repository_step step) s) =
           (if rc a1 \<noteq> 0 \<and> rc a2 \<noteq> 0 then rc a2
            else if rc a3 \<noteq> 0 \<and> rc a4 \<noteq> 0 then rc a4 else 0)"
    unfolding defs by (rule repository_stage(3))
  have w: "world ?s1 = (if rc a1 \<noteq> 0 \<and> rc a2 \<noteq> 0 then w2 else w4)"
    unfolding defs by (rule repository_stage(4))
  have v: "vars ?s1 = vars s"
    by (rule repository_stage(5))
  have rp: "world ?s1 = replay step (world s) (map fst ?tp)"
    by (rule repository_stage(6))
  have quiet: "\<not> list_ex (\<lambda>e. is_push (fst e)) backend"
    "\<not> list_ex (\<lambda>e. is_push (fst e)) (backend @ frontend)"
    unfolding backend_def frontend_def d_b_def c_b_def d_f_def c_f_def by simp_all
  show ?thesis
  proof (cases "succeeded (seq (repository_step step) s)")
    case False
    then have b: "build_and_push_images step s = seq (repository_step step) s"
      by (simp add: build_split seq_append)
    then have t: "t = ?tp"
      by (simp add: t_def issued_def)
    show ?thesis
      using False ok ex rp quiet unfolding t b tp by auto
  next
    case True
    then have b: "build_and_push_images step s = seq (image_steps step) ?s1"
      by (simp add: build_split seq_append)
    have e1: "take (length (trace s)) (trace ?s1) = trace s"
      using tidy_repository_step [of step] unfolding tidy_def by blast
    have e2: "take (length (trace ?s1)) (trace (final (seq (image_steps step) ?s1))) = trace ?s1"
      using tidy_image_steps [of step] unfolding tidy_def by blast
    have t: "t = ?tp @ ?tr"
      using issued_compose(1) [OF e1 e2] by (simp add: t_def issued_def b)
    have both: "(rc a1 = 0 \<or> rc a2 = 0) \<and> (rc a3 = 0 \<or> rc a4 = 0)"
      using True ok by simp
    then have tp': "?tp = backend @ frontend" and w': "world ?s1 = w4"
      using tp w by auto
    have "?tr \<noteq> []"
      by (rule image_stage(1))
    then have "take 1 ?tr = [hd ?tr]"
      by (cases ?tr) simp_all
    then have first: "take 1 ?tr =
        [(EcrGetLoginPassword r, rc (fst (step w4 (EcrGetLoginPassword r))))]"
      by (simp add: image_stage(2) w' v r_def)
    have rest: "filter (\<lambda>e. is_repository_cmd (fst e)) ?tr = []"
      by (rule image_stage(3))
    have "world (final (build_and_push_images step s)) = replay step (world ?s1) (map fst ?tr)"
      unfolding b by (rule image_stage(4))
    then have world: "world (final (build_and_push_images step s))
        = replay step (world s) (map fst t)"
      by (simp add: t rp replay_append)
    have "take (length (backend @ frontend) + 1) t =
        backend @ frontend @ [(EcrGetLoginPassword r, rc (fst (step w4 (EcrGetLoginPassword r))))]"
      using first unfolding t tp' by simp
    moreover have "filter (\<lambda>e. is_repository_cmd (fst e)) (drop (length (backend @ frontend)) t) = []"
      using rest unfolding t tp' by simp
    ultimately show ?thesis
      using both world by auto
  qed
qed

theorem repositories_created_on_demand_witness:
  "take 5 (issued (build_and_push_images cloud_step) (ready fresh_cloud)) =
     [(EcrDescribeRepositories ''blog-backend'' ''us-east-1'', 254),
      (EcrCreateRepository ''blog-backend'' ''us-east-1'', 0),
      (EcrDescribeRepositories ''blog-frontend'' ''us-east-1'', 254),
      (EcrCreateRepository ''blog-frontend'' ''us-east-1'', 0),
      (EcrGetLoginPassword ''us-east-1'', 0)]
   \<and> list_ex (\<lambda>e. is_push (fst e)) (issued (build_and_push_images cloud_step) (ready fresh_cloud))
   \<and> repositories (world (ready fresh_cloud)) = []
   \<and> repositories (replay cloud_step (world (ready fresh_cloud))
        (map fst (issued (build_and_push_images cloud_step) (ready fresh_cloud))))
      = [''blog-frontend'', ''blog-backend'']
   \<and> repositories (world (final (build_and_push_images cloud_step (ready fresh_cloud))))
      = [''blog-frontend'', ''blog-backend'']
   \<and> take 3 (issued (build_and_push_images cloud_step) (ready converged_cloud)) =
     [(EcrDescribeRepositories ''blog-backend'' ''us-east-1'', 0),
      (EcrDescribeRepositories ''blog-frontend'' ''us-east-1'', 0),
      (EcrGetLoginPassword ''us-east-1'', 0)]
   \<and> repositories (world (final (build_and_push_images cloud_step (ready converged_cloud))))
      = [''blog-backend'', ''blog-frontend'']"
proof -
  let ?s = "ready fresh_cloud"
  let ?r = "AWS_REGION (vars ?s)"
  let ?d_b = "EcrDescribeRepositories ''blog-backend'' ?r"
  let ?c_b = "EcrCreateRepository ''blog-backend'' ?r"
  let ?d_f = "EcrDescribeRepositories ''blog-frontend'' ?r"
  let ?c_f = "EcrCreateRepository ''blog-frontend'' ?r"
  let ?a1 = "fst (cloud_step (world ?s) ?d_b)"
  let ?w1 = "snd (cloud_step (world ?s) ?d_b)"
  let ?a2 = "fst (cloud_step ?w1 ?c_b)"
  let ?w2 = "if rc ?a1 = 0 then ?w1 else snd (cloud_step ?w1 ?c_b)"
  let ?a3 = "fst (cloud_step ?w2 ?d_f)"
  let ?w3 = "snd (cloud_step ?w2 ?d_f)"
  let ?a4 = "fst (cloud_step ?w3 ?c_f)"
  let ?w4 = "if rc ?a3 = 0 then ?w3 else snd (cloud_step ?w3 ?c_f)"
  let ?backend = "(?d_b, rc ?a1) # (if rc ?a1 = 0 then [] else [(?c_b, rc ?a2)])"
  let ?frontend = "(?d_f, rc ?a3) # (if rc ?a3 = 0 then [] else [(?c_f, rc ?a4)])"
  let ?t = "issued (build_and_push_images cloud_step) ?s"
  have a: "\<not> (rc ?a1 \<noteq> 0 \<and> rc ?a2 \<noteq> 0)" "\<not> (rc ?a3 \<noteq> 0 \<and> rc ?a4 \<noteq> 0)"
    by code_simp+
  have n: "length (?backend @ ?frontend) + 1 = 5"
    by code_simp
  have l: "?backend @ ?frontend
      @ [(EcrGetLoginPassword ?r, rc (fst (cloud_step ?w4 (EcrGetLoginPassword ?r))))] =
     [(EcrDescribeRepositories ''blog-backend'' ''us-east-1'', 254),
      (EcrCreateRepository ''blog-backend'' ''us-east-1'', 0),
      (EcrDescribeRepositories ''blog-frontend'' ''us-east-1'', 254),
      (EcrCreateRepository ''blog-frontend'' ''us-east-1'', 0),
      (EcrGetLoginPassword ''us-east-1'', 0)]"
    by code_simp
  have push: "list_ex (\<lambda>e. is_push (fst e)) ?t"
    by code_simp
  have before: "repositories (world ?s) = []"
    by code_simp
  have after: "repositories (replay cloud_step (world ?s) (map fst ?t))
      = [''blog-frontend'', ''blog-backend'']"
    by code_simp
  have existing: "take 3 (issued (build_and_push_images cloud_step) (ready converged_cloud)) =
     [(EcrDescribeRepositories ''blog-backend'' ''us-east-1'', 0),
      (EcrDescribeRepositories ''blog-frontend'' ''us-east-1'', 0),
      (EcrGetLoginPassword ''us-east-1'', 0)]"
    "repositories (world (final (build_and_push_images cloud_step (ready converged_cloud))))
      = [''blog-backend'', ''blog-frontend'']"
    by code_simp+
  note th = repositories_created_on_demand [where step = cloud_step and s = ?s]
  from th a have "take (length (?backend @ ?frontend) + 1) ?t =
      ?backend @ ?frontend
      @ [(EcrGetLoginPassword ?r, rc (fst (cloud_step ?w4 (EcrGetLoginPassword ?r))))]"
    by (simp only: if_False simp_thms)
  then have first: "take 5 ?t =
     [(EcrDescribeRepositories ''blog-backend'' ''us-east-1'', 254),
      (EcrCreateRepository ''blog-backend'' ''us-east-1'', 0),
      (EcrDescribeRepositories ''blog-frontend'' ''us-east-1'', 254),
      (EcrCreateRepository ''blog-frontend'' ''us-east-1'', 0),
      (EcrGetLoginPassword ''us-east-1'', 0)]"
    by (simp only: n l)
  from th have "world (final (build_and_push_images cloud_step ?s))
      = replay cloud_step (world ?s) (map fst ?t)"
    by blast
  then have "repositories (world (final (build_and_push_images cloud_step ?s)))
      = [''blog-frontend'', ''blog-backend'']"
    using after by (simp only:)
  then show ?thesis
    using first push before after existing by blast
qed

end
